theory Spec2Isabelle
  imports Complex_Main "HOL-Library.Multiset"
begin

section \<open>Data model\<close>

text \<open>
  The dashboard script \<^verbatim>\<open>app.py\<close> works on pandas data frames. A data frame is a list of
  column names and a list of rows, each row holding one cell per column. A cell is a missing
  value (\<^verbatim>\<open>NaN\<close>, or \<^verbatim>\<open>NaT\<close> in a column of timestamps), a text, an integer or a timestamp.
  A timestamp is a number of time units since 1970-01-01; the script reads its calendar day,
  month and year only, so a \<open>Date\<close> cell holds the number of whole days since 1970-01-01.
\<close>

datatype error =
    FileNotFoundError
  | KeyError string
  | ValueError
  | AttributeError
  | DanglingReference

datatype cell = NaN | Str string | Num int | Date int

record table =
  columns :: "string list"
  rows :: "cell list list"

text \<open>Every row of a data frame has one cell per column, and column names are distinct
  (\<^verbatim>\<open>read_csv\<close> renames duplicated headers).\<close>

definition wf_table :: "table \<Rightarrow> bool" where
  "wf_table df \<longleftrightarrow>
     distinct (columns df) \<and> list_all (\<lambda>r. length r = length (columns df)) (rows df)"

fun index_of :: "'a \<Rightarrow> 'a list \<Rightarrow> nat option" where
  "index_of x [] = None"
| "index_of x (y # ys) =
     (if x = y then Some 0 else (case index_of x ys of None \<Rightarrow> None | Some i \<Rightarrow> Some (Suc i)))"

text \<open>\<^verbatim>\<open>df[c]\<close>: the column named \<open>c\<close>, or \<^verbatim>\<open>KeyError\<close>.\<close>

definition getitem :: "table \<Rightarrow> string \<Rightarrow> error + cell list" where
  "getitem df c =
     (case index_of c (columns df) of
        None \<Rightarrow> Inl (KeyError c)
      | Some i \<Rightarrow> Inr (map (\<lambda>r. r ! i) (rows df)))"

text \<open>\<^verbatim>\<open>df[c] = vs\<close>: replaces the column named \<open>c\<close>, or appends a new last column; the
  values must be as many as the rows.\<close>

definition set_column :: "table \<Rightarrow> string \<Rightarrow> cell list \<Rightarrow> table" where
  "set_column df c vs =
     (case index_of c (columns df) of
        Some i \<Rightarrow> df\<lparr>rows := map2 (\<lambda>r v. r[i := v]) (rows df) vs\<rparr>
      | None \<Rightarrow> df\<lparr>columns := columns df @ [c], rows := map2 (\<lambda>r v. r @ [v]) (rows df) vs\<rparr>)"

definition setitem :: "table \<Rightarrow> string \<Rightarrow> cell list \<Rightarrow> error + table" where
  "setitem df c vs =
     (if length vs \<noteq> length (rows df) then Inl ValueError else Inr (set_column df c vs))"

definition isna :: "cell \<Rightarrow> bool" where
  "isna c \<longleftrightarrow> c = NaN"

text \<open>\<^verbatim>\<open>df.dropna()\<close>: the rows without a missing cell, as a new table.\<close>

definition dropna :: "table \<Rightarrow> table" where
  "dropna df = df\<lparr>rows := filter (\<lambda>r. \<not> list_ex isna r) (rows df)\<rparr>"

text \<open>The calendar date of a day number, in the Gregorian calendar: the days are counted
  from 0000-03-01 in cycles of 400 years (146097 days), centuries (36524 days), four years
  (1461 days) and years (365 days), a leap day being the last day of its cycle; the months
  are counted from March.\<close>

definition civil :: "int \<Rightarrow> int \<times> int \<times> int" where
  "civil z =
     (let s = z + 719468;
          era = s div 146097;
          doe = s mod 146097;
          c = min 3 (doe div 36524);
          r1 = doe - c * 36524;
          q = r1 div 1461;
          r2 = r1 mod 1461;
          y4 = min 3 (r2 div 365);
          doy = r2 - y4 * 365;
          yy = era * 400 + c * 100 + q * 4 + y4;
          mp = (5 * doy + 2) div 153;
          d = doy - (153 * mp + 2) div 5 + 1;
          m = (if mp < 10 then mp + 3 else mp - 9)
      in (if m \<le> 2 then yy + 1 else yy, m, d))"

definition ts_year :: "int \<Rightarrow> int" where
  "ts_year z = fst (civil z)"

definition ts_month :: "int \<Rightarrow> int" where
  "ts_month z = fst (snd (civil z))"

definition ts_day :: "int \<Rightarrow> int" where
  "ts_day z = snd (snd (civil z))"

text \<open>\<^verbatim>\<open>col.dt.day\<close>, \<^verbatim>\<open>col.dt.year\<close>, \<^verbatim>\<open>col.dt.month\<close>: the accessor \<^verbatim>\<open>.dt\<close> exists on a
  column of timestamps only; where the timestamp is missing, so is the field.\<close>

fun dt :: "(int \<Rightarrow> int) \<Rightarrow> cell list \<Rightarrow> error + cell list" where
  "dt field [] = Inr []"
| "dt field (Date z # cs) =
     (case dt field cs of Inl e \<Rightarrow> Inl e | Inr ns \<Rightarrow> Inr (Num (field z) # ns))"
| "dt field (NaN # cs) =
     (case dt field cs of Inl e \<Rightarrow> Inl e | Inr ns \<Rightarrow> Inr (NaN # ns))"
| "dt field (c # cs) = Inl AttributeError"

fun is_date :: "cell \<Rightarrow> bool" where
  "is_date (Date z) = True"
| "is_date c = False"

fun date_of :: "cell \<Rightarrow> int" where
  "date_of (Date z) = z"
| "date_of c = 0"

text \<open>\<^verbatim>\<open>col.astype(int)\<close> on a column of numbers: a missing value cannot become an
  integer.\<close>

definition astype_int :: "cell list \<Rightarrow> error + cell list" where
  "astype_int col = (if list_ex isna col then Inl ValueError else Inr col)"

section \<open>The object store\<close>

text \<open>Python variables hold references. The store maps each reference to the data frame it
  denotes; \<^verbatim>\<open>copy\<close> and \<^verbatim>\<open>dropna\<close> create a new object, an item assignment changes the
  object in place.\<close>

record store =
  next_id :: nat
  frames :: "nat \<rightharpoonup> table"

definition alloc :: "store \<Rightarrow> table \<Rightarrow> nat \<times> store" where
  "alloc st df = (next_id st, st\<lparr>next_id := Suc (next_id st), frames := (frames st)(next_id st \<mapsto> df)\<rparr>)"

definition read_csv :: "(string \<rightharpoonup> table) \<Rightarrow> store \<Rightarrow> string \<Rightarrow> error + nat \<times> store" where
  "read_csv fs st file_path =
     (case fs file_path of None \<Rightarrow> Inl FileNotFoundError | Some df \<Rightarrow> Inr (alloc st df))"

definition df_copy :: "store \<Rightarrow> nat \<Rightarrow> error + nat \<times> store" where
  "df_copy st a = (case frames st a of None \<Rightarrow> Inl DanglingReference | Some df \<Rightarrow> Inr (alloc st df))"

definition df_dropna :: "store \<Rightarrow> nat \<Rightarrow> error + nat \<times> store" where
  "df_dropna st a =
     (case frames st a of None \<Rightarrow> Inl DanglingReference | Some df \<Rightarrow> Inr (alloc st (dropna df)))"

definition df_getitem :: "store \<Rightarrow> nat \<Rightarrow> string \<Rightarrow> error + cell list" where
  "df_getitem st a c = (case frames st a of None \<Rightarrow> Inl DanglingReference | Some df \<Rightarrow> getitem df c)"

definition df_setitem :: "store \<Rightarrow> nat \<Rightarrow> string \<Rightarrow> cell list \<Rightarrow> error + store" where
  "df_setitem st a c vs =
     (case frames st a of
        None \<Rightarrow> Inl DanglingReference
      | Some df \<Rightarrow> (case setitem df c vs of
                     Inl e \<Rightarrow> Inl e
                   | Inr df' \<Rightarrow> Inr (st\<lparr>frames := (frames st)(a \<mapsto> df')\<rparr>)))"

section \<open>The loader\<close>

text \<open>Exceptions propagate: \<open>ebind m f\<close> runs \<open>f\<close> on the value of \<open>m\<close> unless \<open>m\<close> raised.\<close>

definition ebind :: "error + 'a \<Rightarrow> ('a \<Rightarrow> error + 'b) \<Rightarrow> error + 'b" where
  "ebind m f = (case m of Inl e \<Rightarrow> Inl e | Inr x \<Rightarrow> f x)"

text \<open>\<^verbatim>\<open>load_data\<close> (lines 15 to 29), without its cache. Two library functions are
  parameters: the file system \<open>fs\<close> gives the table that \<^verbatim>\<open>pd.read_csv\<close> parses from a path,
  and \<open>to_datetime\<close> is \<^verbatim>\<open>pd.to_datetime(_, format='mixed')\<close> on a whole column, which
  raises or returns a column. The result is the pair of references
  \<^verbatim>\<open>(netflix_raw, netflix_df)\<close> and the store after the call.\<close>

definition load_data ::
  "(string \<rightharpoonup> table) \<Rightarrow> (cell list \<Rightarrow> error + cell list) \<Rightarrow> store \<Rightarrow> string
     \<Rightarrow> error + (nat \<times> nat) \<times> store" where
  "load_data fs to_datetime st file_path =
     ebind (read_csv fs st file_path) (\<lambda>(netflix_raw, st1).
     ebind (df_copy st1 netflix_raw) (\<lambda>(tmp, st2).
     ebind (df_dropna st2 tmp) (\<lambda>(netflix_df, st3).
     ebind (df_getitem st3 netflix_df ''date_added'') (\<lambda>col.
     ebind (to_datetime col) (\<lambda>dates.
     ebind (df_setitem st3 netflix_df ''date_added'' dates) (\<lambda>st4.
     ebind (df_getitem st4 netflix_df ''date_added'') (\<lambda>col1.
     ebind (dt ts_day col1) (\<lambda>days.
     ebind (astype_int days) (\<lambda>days'.
     ebind (df_setitem st4 netflix_df ''day_added'' days') (\<lambda>st5.
     ebind (df_getitem st5 netflix_df ''date_added'') (\<lambda>col2.
     ebind (dt ts_year col2) (\<lambda>years.
     ebind (astype_int years) (\<lambda>years'.
     ebind (df_setitem st5 netflix_df ''year_added'' years') (\<lambda>st6.
     ebind (df_getitem st6 netflix_df ''date_added'') (\<lambda>col3.
     ebind (dt ts_month col3) (\<lambda>months.
     ebind (df_setitem st6 netflix_df ''month_added'' months) (\<lambda>st7.
     Inr ((netflix_raw, netflix_df), st7))))))))))))))))))"

section \<open>Counting\<close>

text \<open>\<^verbatim>\<open>Series.unique()\<close>: the distinct values in the order of their first occurrence.\<close>

definition unique :: "'a list \<Rightarrow> 'a list" where
  "unique xs = rev (remdups (rev xs))"

text \<open>\<^verbatim>\<open>Series.value_counts()\<close>: one entry per distinct value that is not missing, with its
  number of occurrences, largest count first. The sort is stable, so values with equal counts
  stay in the order of their first occurrence; no statement below depends on the order
  among equal counts.\<close>

definition value_counts :: "cell list \<Rightarrow> (cell \<times> nat) list" where
  "value_counts col =
     (let vals = filter (\<lambda>c. \<not> isna c) col
      in sort_key (\<lambda>(k, n). - int n) (map (\<lambda>k. (k, count_list vals k)) (unique vals)))"

fun is_num :: "cell \<Rightarrow> bool" where
  "is_num (Num n) = True"
| "is_num c = False"

fun num_of :: "cell \<Rightarrow> int" where
  "num_of (Num n) = n"
| "num_of c = 0"

text \<open>seaborn's \<^verbatim>\<open>categorical_order\<close>: the distinct values that are not missing, in order of
  first occurrence, sorted when the column is numeric.\<close>

definition categorical_order :: "cell list \<Rightarrow> cell list" where
  "categorical_order col =
     (let vals = filter (\<lambda>c. \<not> isna c) col; u = unique vals
      in if list_all is_num vals then sort_key num_of u else u)"

text \<open>\<^verbatim>\<open>sns.countplot(x=col, order=order)\<close>: one bar per category, as high as the number of
  rows holding it.\<close>

definition countplot :: "cell list \<Rightarrow> cell list option \<Rightarrow> (cell \<times> nat) list" where
  "countplot x order =
     (let vals = filter (\<lambda>c. \<not> isna c) x;
          cats = (case order of None \<Rightarrow> categorical_order x | Some ks \<Rightarrow> ks)
      in map (\<lambda>k. (k, count_list vals k)) cats)"

text \<open>\<^verbatim>\<open>sns.countplot(x=.., hue=.., order=order)\<close>: for each category a group of bars, one per
  hue level.\<close>

definition countplot_hue ::
  "cell list \<Rightarrow> cell list \<Rightarrow> cell list \<Rightarrow> (cell \<times> (cell \<times> nat) list) list" where
  "countplot_hue x hue order =
     (let pairs = filter (\<lambda>(a, b). \<not> isna a \<and> \<not> isna b) (zip x hue);
          levels = categorical_order hue
      in map (\<lambda>k. (k, map (\<lambda>h. (h, count_list pairs (k, h))) levels)) order)"

section \<open>Charts\<close>

text \<open>A figure is what it shows: titles, categories, counts, labels, offsets and the format
  of the percentages. Sizes of the canvas, colours, fonts, shadows and the start angle are
  left out.\<close>

record 'l wedge =
  wedge_label :: 'l
  wedge_size :: nat
  wedge_explode :: real

record bar_axes =
  bar_title :: string
  bar_rotation :: nat
  bars :: "(cell \<times> nat) list"

record grouped_bar_axes =
  grouped_title :: string
  grouped_rotation :: nat
  groups :: "(cell \<times> (cell \<times> nat) list) list"

record 'l pie_axes =
  pie_title :: string
  autopct :: string
  wedges :: "'l wedge list"

text \<open>matplotlib's \<^verbatim>\<open>Axes.pie(x, labels=.., explode=..)\<close>: one wedge per entry of \<open>x\<close>; labels
  and offsets must be as many as the entries.\<close>

definition pie :: "nat list \<Rightarrow> 'l list \<Rightarrow> real list option \<Rightarrow> error + 'l wedge list" where
  "pie x labels explode =
     (let explode' = (case explode of None \<Rightarrow> replicate (length x) 0 | Some e \<Rightarrow> e)
      in if length x \<noteq> length labels then Inl ValueError
         else if length x \<noteq> length explode' then Inl ValueError
         else Inr (map (\<lambda>(n, l, e). \<lparr>wedge_label = l, wedge_size = n, wedge_explode = e\<rparr>)
                     (zip x (zip labels explode'))))"

text \<open>\<^verbatim>\<open>Series.plot.pie\<close>: the wedges are labelled by the index of the series; an empty
  series is refused.\<close>

definition plot_pie :: "(cell \<times> nat) list \<Rightarrow> error + cell wedge list" where
  "plot_pie counts =
     (if counts = [] then Inl ValueError else pie (map snd counts) (map fst counts) None)"

section \<open>The distribution renderers\<close>

text \<open>Each renderer receives the store and a reference to a data frame, and returns the
  figure (or the exception) together with the store after the call.\<close>

definition plot_type_distribution ::
  "store \<Rightarrow> nat \<Rightarrow> (error + bar_axes \<times> string pie_axes) \<times> store" where
  "plot_type_distribution st df =
     (ebind (df_getitem st df ''type'') (\<lambda>x.
      let axes0 = \<lparr>bar_title = ''Count of Content Type'', bar_rotation = 0,
                    bars = countplot x None\<rparr> in
      ebind (df_getitem st df ''type'') (\<lambda>col.
      let labels = [''Movie'', ''TV Show''];
          size = value_counts col;
          explode = [0, 0.05] in
      ebind (pie (map snd size) labels (Some explode)) (\<lambda>ws.
      Inr (axes0, \<lparr>pie_title = ''Percentage Distribution of Content Type'',
                    autopct = ''%1.1f%%'', wedges = ws\<rparr>)))),
      st)"

definition plot_rating_distribution ::
  "store \<Rightarrow> nat \<Rightarrow> (error + bar_axes \<times> cell pie_axes) \<times> store" where
  "plot_rating_distribution st df =
     (ebind (df_getitem st df ''rating'') (\<lambda>col.
      let rating_order = map fst (value_counts col) in
      ebind (df_getitem st df ''rating'') (\<lambda>x.
      let axes0 = \<lparr>bar_title = ''Count of Content by Rating'', bar_rotation = 70,
                    bars = countplot x (Some rating_order)\<rparr> in
      ebind (df_getitem st df ''rating'') (\<lambda>col1.
      ebind (plot_pie (value_counts col1)) (\<lambda>ws.
      Inr (axes0, \<lparr>pie_title = ''Percentage Distribution of Content by Rating'',
                    autopct = ''%1.1f%%'', wedges = ws\<rparr>))))),
      st)"

text \<open>The argument \<^verbatim>\<open>order=df['rating'].value_counts().index\<close> is evaluated before seaborn
  looks the names \<^verbatim>\<open>'rating'\<close> and \<^verbatim>\<open>'type'\<close> up in \<^verbatim>\<open>data\<close>; seaborn reports an unknown
  name as \<^verbatim>\<open>ValueError\<close>.\<close>

definition data_column :: "store \<Rightarrow> nat \<Rightarrow> string \<Rightarrow> error + cell list" where
  "data_column st df c =
     (case df_getitem st df c of Inl (KeyError k) \<Rightarrow> Inl ValueError | r \<Rightarrow> r)"

definition plot_type_vs_rating :: "store \<Rightarrow> nat \<Rightarrow> (error + grouped_bar_axes) \<times> store" where
  "plot_type_vs_rating st df =
     (ebind (df_getitem st df ''rating'') (\<lambda>col.
      let order = map fst (value_counts col) in
      ebind (data_column st df ''rating'') (\<lambda>x.
      ebind (data_column st df ''type'') (\<lambda>hue.
      Inr \<lparr>grouped_title = ''Relation between Type (Movie/TV Show) and Rating'',
           grouped_rotation = 70,
           groups = countplot_hue x hue order\<rparr>))),
      st)"

section \<open>The word cloud\<close>

text \<open>Python's \<^verbatim>\<open>sep.join(xs)\<close>.\<close>

fun join :: "string \<Rightarrow> string list \<Rightarrow> string" where
  "join sep [] = []"
| "join sep [x] = x"
| "join sep (x # y # ys) = x @ sep @ join sep (y # ys)"

text \<open>Python's \<^verbatim>\<open>s.replace(old, new)\<close>: every occurrence of \<open>old\<close>, found from the left and
  not overlapping, becomes \<open>new\<close>; an empty \<open>old\<close> matches before every character and at
  the end.\<close>

function str_replace :: "string \<Rightarrow> string \<Rightarrow> string \<Rightarrow> string" where
  "str_replace old new s =
     (if old = [] then new @ concat (map (\<lambda>c. c # new) s)
      else if s = [] then []
      else if take (length old) s = old then new @ str_replace old new (drop (length old) s)
      else hd s # str_replace old new (tl s))"
  by pat_completeness auto
termination
  by (relation "measure (\<lambda>(old, new, s). length s)") auto

text \<open>The decimal digits of a natural number, and zero padding.\<close>

fun digits :: "nat \<Rightarrow> string" where
  "digits n =
     (if n < 10 then [''0123456789'' ! n] else digits (n div 10) @ [''0123456789'' ! (n mod 10)])"

definition zfill :: "nat \<Rightarrow> string \<Rightarrow> string" where
  "zfill w s = replicate (w - length s) (CHR ''0'') @ s"

text \<open>\<^verbatim>\<open>col.astype(str)\<close> on one cell: a text is itself, a missing value reads \<^verbatim>\<open>nan\<close>, an
  integer is written in decimal, a timestamp as its ISO date.\<close>

fun astype_str :: "cell \<Rightarrow> string" where
  "astype_str NaN = ''nan''"
| "astype_str (Str s) = s"
| "astype_str (Num n) = (if n < 0 then CHR ''-'' # digits (nat (- n)) else digits (nat n))"
| "astype_str (Date z) =
     zfill 4 (digits (nat (ts_year z))) @ ''-'' @ zfill 2 (digits (nat (ts_month z))) @ ''-''
       @ zfill 2 (digits (nat (ts_day z)))"

record 'img wordcloud_figure =
  wc_title :: string
  wc_text :: string
  wc_image :: 'img

text \<open>\<^verbatim>\<open>generate_wordcloud\<close> (lines 123 to 139), without its cache. The word-cloud library is a
  parameter: \<open>process_text\<close> turns the text into word frequencies, \<open>layout\<close> places the words
  using random numbers (it takes the state of the random generator and returns the next one),
  and \<^verbatim>\<open>WordCloud.generate\<close> raises \<^verbatim>\<open>ValueError\<close> when the text has no word.\<close>

definition generate_wordcloud ::
  "(string \<Rightarrow> (string \<times> nat) list) \<Rightarrow> ('r \<Rightarrow> (string \<times> nat) list \<Rightarrow> 'img \<times> 'r)
     \<Rightarrow> store \<Rightarrow> 'r \<Rightarrow> nat \<Rightarrow> string \<Rightarrow> string \<Rightarrow> (error + 'img wordcloud_figure) \<times> 'r" where
  "generate_wordcloud process_text layout st rng df column_name title =
     (case df_getitem st df column_name of
        Inl e \<Rightarrow> (Inl e, rng)
      | Inr col \<Rightarrow>
          (let text = join '' '' (map (\<lambda>c. str_replace '','' [] (astype_str c)) col);
               words = process_text text
           in if words = [] then (Inl ValueError, rng)
              else (let (image, rng') = layout rng words
                    in (Inr \<lparr>wc_title = title, wc_text = text, wc_image = image\<rparr>, rng'))))"

text \<open>Modelled from the spec: the tokenizer of the word-cloud library is not part of the
  repository. The spec speaks of the word tokens of the text blob; here they are the maximal
  runs of characters other than the space.\<close>

fun tokens_from :: "string \<Rightarrow> string \<Rightarrow> string list" where
  "tokens_from w [] = (if w = [] then [] else [w])"
| "tokens_from w (c # cs) =
     (if c = CHR '' '' then (if w = [] then [] else [w]) @ tokens_from [] cs
      else tokens_from (w @ [c]) cs)"

definition tokens :: "string \<Rightarrow> string list" where
  "tokens s = tokens_from [] s"

text \<open>The text blob in the words of the spec: every row's value with its comma characters
  stripped, the values separated by single spaces.\<close>

definition strip_commas :: "string \<Rightarrow> string" where
  "strip_commas s = filter (\<lambda>c. c \<noteq> CHR '','') s"

fun spaced :: "string list \<Rightarrow> string" where
  "spaced [] = []"
| "spaced (v # vs) = foldl (\<lambda>acc x. acc @ [CHR '' ''] @ x) v vs"

definition wordcloud_text_spec :: "string list \<Rightarrow> string" where
  "wordcloud_text_spec vals = spaced (map strip_commas vals)"

section \<open>Caching\<close>

text \<open>\<^verbatim>\<open>@st.cache_data\<close> keeps the value a function returned, under the arguments of the call
  (a data frame counts by its contents). A later call with the same arguments returns a copy
  of the stored value and does not run the function; an exception is not stored.\<close>

definition cached_load_data ::
  "(string \<rightharpoonup> table \<times> table) \<Rightarrow> (string \<rightharpoonup> table) \<Rightarrow> (cell list \<Rightarrow> error + cell list)
     \<Rightarrow> store \<Rightarrow> string \<Rightarrow> (error + nat \<times> nat) \<times> store \<times> (string \<rightharpoonup> table \<times> table)" where
  "cached_load_data cache fs parse st file_path =
     (case cache file_path of
        Some (raw, cleaned) \<Rightarrow>
          (let (r, st1) = alloc st raw; (d, st2) = alloc st1 cleaned
           in (Inr (r, d), st2, cache))
      | None \<Rightarrow>
          (case load_data fs parse st file_path of
             Inl e \<Rightarrow> (Inl e, st, cache)
           | Inr ((r, d), st') \<Rightarrow>
               (case (frames st' r, frames st' d) of
                  (Some raw, Some cleaned) \<Rightarrow>
                    (Inr (r, d), st', cache(file_path \<mapsto> (raw, cleaned)))
                | _ \<Rightarrow> (Inl DanglingReference, st, cache))))"

definition cached_generate_wordcloud ::
  "(table \<times> string \<times> string \<rightharpoonup> 'img wordcloud_figure)
     \<Rightarrow> (string \<Rightarrow> (string \<times> nat) list) \<Rightarrow> ('r \<Rightarrow> (string \<times> nat) list \<Rightarrow> 'img \<times> 'r)
     \<Rightarrow> store \<Rightarrow> 'r \<Rightarrow> nat \<Rightarrow> string \<Rightarrow> string
     \<Rightarrow> (error + 'img wordcloud_figure) \<times> 'r \<times> (table \<times> string \<times> string \<rightharpoonup> 'img wordcloud_figure)" where
  "cached_generate_wordcloud cache process_text layout st rng df column_name title =
     (case frames st df of
        None \<Rightarrow> (Inl DanglingReference, rng, cache)
      | Some t \<Rightarrow>
          (case cache (t, column_name, title) of
             Some fig \<Rightarrow> (Inr fig, rng, cache)
           | None \<Rightarrow>
               (case generate_wordcloud process_text layout st rng df column_name title of
                  (Inl e, rng') \<Rightarrow> (Inl e, rng', cache)
                | (Inr fig, rng') \<Rightarrow> (Inr fig, rng', cache((t, column_name, title) \<mapsto> fig)))))"

section \<open>A small catalog\<close>

text \<open>Three records in the shape of \<^verbatim>\<open>netflix_titles.csv\<close>, cut down to four columns; the
  third has no country. The first two are the fixture of the spec's end-to-end property.\<close>

definition fixture :: table where
  "fixture =
     \<lparr>columns = [''type'', ''rating'', ''country'', ''date_added''],
      rows = [[Str ''Movie'', Str ''PG'', Str ''USA'', Str ''September 25, 2021''],
              [Str ''TV Show'', Str ''PG'', Str ''USA, India'', Str ''July 1, 2019''],
              [Str ''TV Show'', Str ''TV-MA'', NaN, Str ''July 1, 2019'']]\<rparr>"

text \<open>A stand-in for \<^verbatim>\<open>pd.to_datetime\<close>, for evaluation: it knows three dates, and raises
  when the column holds anything else.\<close>

definition fixture_date :: "cell \<Rightarrow> int option" where
  "fixture_date c =
     (if c = Str ''September 25, 2021'' then Some 18895
      else if c = Str ''July 1, 2019'' then Some 18078
      else if c = Str ''0999-01-01'' then Some (- 354650)
      else None)"

definition fixture_to_datetime :: "cell list \<Rightarrow> error + cell list" where
  "fixture_to_datetime col =
     (if list_all (\<lambda>c. fixture_date c \<noteq> None) col
      then Inr (map (\<lambda>c. Date (the (fixture_date c))) col)
      else Inl ValueError)"

definition fixture_fs :: "string \<rightharpoonup> table" where
  "fixture_fs = [''netflix_titles.csv'' \<mapsto> fixture]"

definition empty_store :: store where
  "empty_store = \<lparr>next_id = 0, frames = Map.empty\<rparr>"

definition fixture_cleaned :: table where
  "fixture_cleaned =
     \<lparr>columns = [''type'', ''rating'', ''country'', ''date_added'',
                 ''day_added'', ''year_added'', ''month_added''],
      rows = [[Str ''Movie'', Str ''PG'', Str ''USA'',
               Date 18895, Num 25, Num 2021, Num 9],
              [Str ''TV Show'', Str ''PG'', Str ''USA, India'',
               Date 18078, Num 1, Num 2019, Num 7]]\<rparr>"

text \<open>A store with one data frame, at reference 0.\<close>

definition one_frame :: "table \<Rightarrow> store" where
  "one_frame df = \<lparr>next_id = 1, frames = [0 \<mapsto> df]\<rparr>"

text \<open>A catalog of movies only, and one with a record whose type is missing.\<close>

definition only_movies :: table where
  "only_movies =
     \<lparr>columns = [''type'', ''rating''],
      rows = [[Str ''Movie'', Str ''PG''], [Str ''Movie'', Str ''R'']]\<rparr>"

definition missing_type :: table where
  "missing_type =
     \<lparr>columns = [''type'', ''rating''],
      rows = [[Str ''Movie'', Str ''PG''], [Str ''TV Show'', Str ''R''], [NaN, Str ''R'']]\<rparr>"

text \<open>A stand-in for the word-cloud library, for evaluation: the frequencies of the tokens,
  and a layout that is the list of frequencies, rotated by the state of the random
  generator.\<close>

definition sample_process_text :: "string \<Rightarrow> (string \<times> nat) list" where
  "sample_process_text s = map (\<lambda>w. (w, count_list (tokens s) w)) (unique (tokens s))"

definition sample_layout :: "nat \<Rightarrow> (string \<times> nat) list \<Rightarrow> (string \<times> nat) list \<times> nat" where
  "sample_layout rng ws = (rotate rng ws, Suc rng)"


text \<open>A catalog with a title added in the year 999, and its cleaned table.\<close>

definition early_catalog :: table where
  "early_catalog =
     \<lparr>columns = [''type'', ''date_added''], rows = [[Str ''Movie'', Str ''0999-01-01'']]\<rparr>"

definition early_cleaned :: table where
  "early_cleaned =
     \<lparr>columns = [''type'', ''date_added'', ''day_added'', ''year_added'', ''month_added''],
      rows = [[Str ''Movie'', Date (- 354650), Num 1, Num 999, Num 1]]\<rparr>"

definition early_fs :: "string \<rightharpoonup> table" where
  "early_fs = [''netflix_titles.csv'' \<mapsto> early_catalog]"


section \<open>Facts about data frames\<close>

lemma index_of_SomeD: "index_of x xs = Some i \<Longrightarrow> i < length xs \<and> xs ! i = x"
  by (induction xs arbitrary: i) (auto split: if_splits option.splits)

lemma index_of_None_iff: "index_of x xs = None \<longleftrightarrow> x \<notin> set xs"
  by (induction xs) (auto split: option.splits)

lemma index_of_append_in: "x \<in> set xs \<Longrightarrow> index_of x (xs @ ys) = index_of x xs"
  by (induction xs) (auto split: option.splits simp: index_of_None_iff)

lemma index_of_append_new: "x \<notin> set xs \<Longrightarrow> index_of x (xs @ [x]) = Some (length xs)"
  by (induction xs) auto

lemma index_of_Some_mem: "index_of x xs = Some i \<Longrightarrow> x \<in> set xs"
  using index_of_None_iff[of x xs] by auto

lemma wf_row_length:
  "wf_table df \<Longrightarrow> i < length (rows df) \<Longrightarrow> length (rows df ! i) = length (columns df)"
  by (simp add: wf_table_def list_all_iff)

lemma rows_set_column:
  "length vs = length (rows df) \<Longrightarrow> length (rows (set_column df c vs)) = length (rows df)"
  by (simp add: set_column_def split: option.splits)

lemma wf_set_column:
  "wf_table df \<Longrightarrow> wf_table (set_column df c vs)"
  by (auto simp: set_column_def wf_table_def list_all_iff index_of_None_iff set_zip split: option.splits)

lemma columns_set_column:
  "columns (set_column df c vs) = (if c \<in> set (columns df) then columns df else columns df @ [c])"
  by (auto simp: set_column_def index_of_None_iff dest: index_of_Some_mem split: option.splits)

lemma getitem_set_column_same:
  assumes "wf_table df" "length vs = length (rows df)"
  shows "getitem (set_column df c vs) c = Inr vs"
proof (cases "index_of c (columns df)")
  case None
  then have new: "c \<notin> set (columns df)" by (simp add: index_of_None_iff)
  have "map (\<lambda>r. r ! length (columns df)) (map2 (\<lambda>r v. r @ [v]) (rows df) vs) = vs"
    using assms by (intro nth_equalityI) (auto simp: wf_row_length nth_append)
  with None new show ?thesis
    by (simp add: getitem_def set_column_def index_of_append_new)
next
  case (Some i)
  then have i: "i < length (columns df)" by (auto dest: index_of_SomeD)
  have "map (\<lambda>r. r ! i) (map2 (\<lambda>r v. r[i := v]) (rows df) vs) = vs"
    using assms i by (intro nth_equalityI) (auto simp: wf_row_length)
  with Some show ?thesis
    by (simp add: getitem_def set_column_def)
qed

lemma getitem_set_column_other:
  assumes "wf_table df" "length vs = length (rows df)" "c' \<noteq> c"
  shows "getitem (set_column df c vs) c' = getitem df c'"
proof (cases "index_of c (columns df)")
  case None
  show ?thesis
  proof (cases "index_of c' (columns df)")
    case n: None
    then have "c' \<notin> set (columns df @ [c])" using assms(3) by (simp add: index_of_None_iff)
    then have "index_of c' (columns df @ [c]) = None" by (simp add: index_of_None_iff)
    with None n show ?thesis by (simp add: getitem_def set_column_def)
  next
    case (Some j)
    then have j: "j < length (columns df)" "c' \<in> set (columns df)"
      using index_of_SomeD[OF Some] nth_mem by auto
    have "map (\<lambda>r. r ! j) (map2 (\<lambda>r v. r @ [v]) (rows df) vs) = map (\<lambda>r. r ! j) (rows df)"
      using assms j by (intro nth_equalityI) (auto simp: wf_row_length nth_append)
    with None Some j show ?thesis
      by (simp add: getitem_def set_column_def index_of_append_in)
  qed
next
  case (Some i)
  show ?thesis
  proof (cases "index_of c' (columns df)")
    case None
    with Some show ?thesis by (simp add: getitem_def set_column_def)
  next
    case s: (Some j)
    have "i \<noteq> j" using index_of_SomeD[OF Some] index_of_SomeD[OF s] assms(3) by auto
    then have "map (\<lambda>r. r ! j) (map2 (\<lambda>r v. r[i := v]) (rows df) vs) = map (\<lambda>r. r ! j) (rows df)"
      using assms by (intro nth_equalityI) auto
    with Some s show ?thesis by (simp add: getitem_def set_column_def)
  qed
qed

lemma getitem_length: "getitem df c = Inr col \<Longrightarrow> length col = length (rows df)"
  by (auto simp: getitem_def split: option.splits)

lemma wf_dropna: "wf_table df \<Longrightarrow> wf_table (dropna df)"
  by (simp add: wf_table_def dropna_def list_all_iff)

lemma rows_dropna_complete:
  "rows (dropna df) = filter (\<lambda>r. NaN \<notin> set r) (rows df)"
  by (simp add: dropna_def list_ex_iff isna_def)

text \<open>The cleaned table, column by column.\<close>

lemma cleaned_columns:
  assumes wf: "wf_table d" and col: "getitem d ''date_added'' = Inr col"
    and "length a = length col" "length b = length col" "length e = length col" "length f = length col"
  defines "cl \<equiv> set_column (set_column (set_column (set_column d ''date_added'' a) ''day_added'' b) ''year_added'' e) ''month_added'' f"
  shows "length (rows cl) = length (rows d)"
    and "wf_table cl"
    and "getitem cl ''date_added'' = Inr a"
    and "getitem cl ''day_added'' = Inr b"
    and "getitem cl ''year_added'' = Inr e"
    and "getitem cl ''month_added'' = Inr f"
    and "c \<notin> {''date_added'', ''day_added'', ''year_added'', ''month_added''} \<Longrightarrow> getitem cl c = getitem d c"
    and "set (columns cl) = set (columns d) \<union> {''day_added'', ''year_added'', ''month_added''}"
proof -
  have len: "length col = length (rows d)" using col by (rule getitem_length)
  define d1 where "d1 = set_column d ''date_added'' a"
  define d2 where "d2 = set_column d1 ''day_added'' b"
  define d3 where "d3 = set_column d2 ''year_added'' e"
  have cl: "cl = set_column d3 ''month_added'' f" by (simp add: cl_def d1_def d2_def d3_def)
  have w1: "wf_table d1" unfolding d1_def using wf by (rule wf_set_column)
  have w2: "wf_table d2" unfolding d2_def using w1 by (rule wf_set_column)
  have w3: "wf_table d3" unfolding d3_def using w2 by (rule wf_set_column)
  have r1: "length (rows d1) = length col" unfolding d1_def using assms(3) len by (simp add: rows_set_column)
  have r2: "length (rows d2) = length col" unfolding d2_def using assms(4) r1 by (simp add: rows_set_column)
  have r3: "length (rows d3) = length col" unfolding d3_def using assms(5) r2 by (simp add: rows_set_column)
  show "length (rows cl) = length (rows d)" unfolding cl using assms(6) r3 len by (simp add: rows_set_column)
  show "wf_table cl" unfolding cl using w3 by (rule wf_set_column)
  have "getitem d1 ''date_added'' = Inr a"
    unfolding d1_def using wf assms(3) len by (simp add: getitem_set_column_same)
  then have "getitem d2 ''date_added'' = Inr a"
    unfolding d2_def using w1 assms(4) r1 by (simp add: getitem_set_column_other)
  then have "getitem d3 ''date_added'' = Inr a"
    unfolding d3_def using w2 assms(5) r2 by (simp add: getitem_set_column_other)
  then show "getitem cl ''date_added'' = Inr a"
    unfolding cl using w3 assms(6) r3 by (simp add: getitem_set_column_other)
  have "getitem d2 ''day_added'' = Inr b"
    unfolding d2_def using w1 assms(4) r1 by (simp add: getitem_set_column_same)
  then have "getitem d3 ''day_added'' = Inr b"
    unfolding d3_def using w2 assms(5) r2 by (simp add: getitem_set_column_other)
  then show "getitem cl ''day_added'' = Inr b"
    unfolding cl using w3 assms(6) r3 by (simp add: getitem_set_column_other)
  have "getitem d3 ''year_added'' = Inr e"
    unfolding d3_def using w2 assms(5) r2 by (simp add: getitem_set_column_same)
  then show "getitem cl ''year_added'' = Inr e"
    unfolding cl using w3 assms(6) r3 by (simp add: getitem_set_column_other)
  show "getitem cl ''month_added'' = Inr f"
    unfolding cl using w3 assms(6) r3 by (simp add: getitem_set_column_same)
  show "getitem cl c = getitem d c"
    if "c \<notin> {''date_added'', ''day_added'', ''year_added'', ''month_added''}"
  proof -
    from that have ne: "c \<noteq> ''date_added''" "c \<noteq> ''day_added''" "c \<noteq> ''year_added''" "c \<noteq> ''month_added''"
      by auto
    have "getitem d1 c = getitem d c"
      unfolding d1_def using wf assms(3) len ne by (simp add: getitem_set_column_other)
    moreover have "getitem d2 c = getitem d1 c"
      unfolding d2_def using w1 assms(4) r1 ne by (simp add: getitem_set_column_other)
    moreover have "getitem d3 c = getitem d2 c"
      unfolding d3_def using w2 assms(5) r2 ne by (simp add: getitem_set_column_other)
    moreover have "getitem cl c = getitem d3 c"
      unfolding cl using w3 assms(6) r3 ne by (simp add: getitem_set_column_other)
    ultimately show ?thesis by simp
  qed
  have "''date_added'' \<in> set (columns d)"
    using col by (auto simp: getitem_def dest: index_of_Some_mem split: option.splits)
  then show "set (columns cl) = set (columns d) \<union> {''day_added'', ''year_added'', ''month_added''}"
    unfolding cl_def by (auto simp: columns_set_column)
qed

section \<open>Facts about the loader\<close>

lemma dt_dates:
  "list_all is_date ds \<Longrightarrow> dt field ds = Inr (map (\<lambda>c. Num (field (date_of c))) ds)"
  by (induction field ds rule: dt.induct) simp_all

lemma dt_Inr_missing:
  "dt field ds = Inr ns \<Longrightarrow> \<not> list_all is_date ds \<Longrightarrow> list_ex isna ns"
  by (induction field ds arbitrary: ns rule: dt.induct) (auto simp: isna_def split: sum.splits)

lemma astype_int_numbers: "astype_int (map (\<lambda>c. Num (f c)) ds) = Inr (map (\<lambda>c. Num (f c)) ds)"
  by (auto simp: astype_int_def list_ex_iff isna_def)

lemma dt_astype_int_fails:
  assumes "\<not> list_all is_date ds"
  shows "\<exists>e. ebind (dt field ds) (\<lambda>x. ebind (astype_int x) g) = Inl e"
proof (cases "dt field ds")
  case (Inl e)
  then show ?thesis by (simp add: ebind_def)
next
  case (Inr ns)
  from dt_Inr_missing[OF Inr assms] have "astype_int ns = Inl ValueError"
    by (simp add: astype_int_def)
  with Inr show ?thesis by (simp add: ebind_def)
qed

text \<open>What the loader returns when \<^verbatim>\<open>pd.to_datetime\<close> returns a column of timestamps, one
  per row.\<close>

lemma load_data_ok:
  assumes fsp: "fs p = Some t" and wf: "wf_table t"
    and col: "getitem (dropna t) ''date_added'' = Inr col"
    and td: "to_datetime col = Inr dates"
    and len: "length dates = length col"
    and dates: "list_all is_date dates"
  shows "load_data fs to_datetime st p =
     Inr ((next_id st, next_id st + 2),
          st\<lparr>next_id := next_id st + 3,
             frames := (frames st)
               (next_id st \<mapsto> t, Suc (next_id st) \<mapsto> t,
                next_id st + 2 \<mapsto>
                  set_column (set_column (set_column (set_column (dropna t)
                    ''date_added'' dates)
                    ''day_added'' (map (\<lambda>c. Num (ts_day (date_of c))) dates))
                    ''year_added'' (map (\<lambda>c. Num (ts_year (date_of c))) dates))
                    ''month_added'' (map (\<lambda>c. Num (ts_month (date_of c))) dates))\<rparr>)"
proof -
  have len_col: "length col = length (rows (dropna t))" using col by (rule getitem_length)
  define days where "days = map (\<lambda>c. Num (ts_day (date_of c))) dates"
  define years where "years = map (\<lambda>c. Num (ts_year (date_of c))) dates"
  define months where "months = map (\<lambda>c. Num (ts_month (date_of c))) dates"
  define df1 where "df1 = set_column (dropna t) ''date_added'' dates"
  define df2 where "df2 = set_column df1 ''day_added'' days"
  define df3 where "df3 = set_column df2 ''year_added'' years"
  have dt_day: "dt ts_day dates = Inr days"
    and dt_year: "dt ts_year dates = Inr years"
    and dt_month: "dt ts_month dates = Inr months"
    using dates by (simp_all add: days_def years_def months_def dt_dates)
  have ints: "astype_int days = Inr days" "astype_int years = Inr years"
    by (simp_all add: days_def years_def astype_int_numbers)
  have lens: "length days = length col" "length years = length col" "length months = length col"
    using len by (simp_all add: days_def years_def months_def)
  have wf0: "wf_table (dropna t)" using wf by (rule wf_dropna)
  have wf1: "wf_table df1" unfolding df1_def using wf0 by (rule wf_set_column)
  have wf2: "wf_table df2" unfolding df2_def using wf1 by (rule wf_set_column)
  have r1: "length (rows df1) = length col"
    unfolding df1_def using len len_col by (simp add: rows_set_column)
  have r2: "length (rows df2) = length col"
    unfolding df2_def using lens r1 by (simp add: rows_set_column)
  have r3: "length (rows df3) = length col"
    unfolding df3_def using lens r2 by (simp add: rows_set_column)
  have g1: "getitem df1 ''date_added'' = Inr dates"
    unfolding df1_def using wf0 len len_col by (simp add: getitem_set_column_same)
  have g2: "getitem df2 ''date_added'' = Inr dates"
    unfolding df2_def using wf1 lens r1 g1 by (simp add: getitem_set_column_other)
  have g3: "getitem df3 ''date_added'' = Inr dates"
    unfolding df3_def using wf2 lens r2 g2 by (simp add: getitem_set_column_other)
  have s1: "setitem (dropna t) ''date_added'' dates = Inr df1"
    using len len_col by (simp add: setitem_def df1_def)
  have s2: "setitem df1 ''day_added'' days = Inr df2"
    using lens r1 by (simp add: setitem_def df2_def)
  have s3: "setitem df2 ''year_added'' years = Inr df3"
    using lens r2 by (simp add: setitem_def df3_def)
  have s4: "setitem df3 ''month_added'' months = Inr (set_column df3 ''month_added'' months)"
    using lens r3 by (simp add: setitem_def)
  have "load_data fs to_datetime st p =
    Inr ((next_id st, next_id st + 2),
         st\<lparr>next_id := next_id st + 3,
            frames := (frames st)
              (next_id st \<mapsto> t, Suc (next_id st) \<mapsto> t,
               next_id st + 2 \<mapsto> set_column df3 ''month_added'' months)\<rparr>)"
    using fsp col td s1 s2 s3 s4 g1 g2 g3 dt_day dt_year dt_month ints
    by (simp add: load_data_def ebind_def read_csv_def alloc_def df_copy_def df_dropna_def
        df_getitem_def df_setitem_def)
  then show ?thesis
    by (simp add: df3_def df2_def df1_def days_def years_def months_def)
qed

text \<open>When the loader returns, \<^verbatim>\<open>pd.to_datetime\<close> has returned a column of timestamps, one
  per row.\<close>

lemma load_data_InrD:
  assumes fsp: "fs p = Some t" and wf: "wf_table t"
    and run: "load_data fs to_datetime st p = Inr (refs, st')"
  shows "\<exists>col dates. getitem (dropna t) ''date_added'' = Inr col \<and> to_datetime col = Inr dates
           \<and> length dates = length col \<and> list_all is_date dates"
proof (cases "getitem (dropna t) ''date_added''")
  case (Inl e)
  with fsp have "load_data fs to_datetime st p = Inl e"
    by (simp add: load_data_def ebind_def read_csv_def alloc_def df_copy_def df_dropna_def
        df_getitem_def)
  with run show ?thesis by simp
next
  case (Inr col)
  note col = this
  have len_col: "length col = length (rows (dropna t))" using col by (rule getitem_length)
  show ?thesis
  proof (cases "to_datetime col")
    case (Inl e)
    with fsp col have "load_data fs to_datetime st p = Inl e"
      by (simp add: load_data_def ebind_def read_csv_def alloc_def df_copy_def df_dropna_def
          df_getitem_def)
    with run show ?thesis by simp
  next
    case (Inr dates)
    note td = this
    show ?thesis
    proof (cases "length dates = length col")
      case False
      with fsp col td len_col have "load_data fs to_datetime st p = Inl ValueError"
        by (simp add: load_data_def ebind_def read_csv_def alloc_def df_copy_def df_dropna_def
            df_getitem_def df_setitem_def setitem_def)
      with run show ?thesis by simp
    next
      case True
      note len = this
      show ?thesis
      proof (cases "list_all is_date dates")
        case True
        with col td len show ?thesis by blast
      next
        case False
        define df1 where "df1 = set_column (dropna t) ''date_added'' dates"
        have wf0: "wf_table (dropna t)" using wf by (rule wf_dropna)
        have g1: "getitem df1 ''date_added'' = Inr dates"
          unfolding df1_def using wf0 len len_col by (simp add: getitem_set_column_same)
        have s1: "setitem (dropna t) ''date_added'' dates = Inr df1"
          using len len_col by (simp add: setitem_def df1_def)
        let ?st4 = "st\<lparr>next_id := Suc (Suc (Suc (next_id st))),
            frames := (frames st)(next_id st \<mapsto> t, Suc (next_id st) \<mapsto> t,
              Suc (Suc (next_id st)) \<mapsto> df1)\<rparr>"
        let ?rest = "\<lambda>days'.
           ebind (df_setitem ?st4 (Suc (Suc (next_id st))) ''day_added'' days') (\<lambda>st5.
           ebind (df_getitem st5 (Suc (Suc (next_id st))) ''date_added'') (\<lambda>col2.
           ebind (dt ts_year col2) (\<lambda>years.
           ebind (astype_int years) (\<lambda>years'.
           ebind (df_setitem st5 (Suc (Suc (next_id st))) ''year_added'' years') (\<lambda>st6.
           ebind (df_getitem st6 (Suc (Suc (next_id st))) ''date_added'') (\<lambda>col3.
           ebind (dt ts_month col3) (\<lambda>months.
           ebind (df_setitem st6 (Suc (Suc (next_id st))) ''month_added'' months) (\<lambda>st7.
           Inr ((next_id st, Suc (Suc (next_id st))), st7)))))))))"
        have "load_data fs to_datetime st p =
            ebind (dt ts_day dates) (\<lambda>days. ebind (astype_int days) ?rest)"
          using fsp col td s1 g1
          by (simp add: load_data_def read_csv_def alloc_def df_copy_def df_dropna_def
              df_getitem_def df_setitem_def ebind_def[of "Inr x" for x])
        with dt_astype_int_fails[OF False, of ts_day ?rest] run show ?thesis by auto
      qed
    qed
  qed
qed

section \<open>The small catalog, evaluated\<close>

lemma wf_fixture: "wf_table fixture"
  by (simp add: wf_table_def fixture_def)

lemma dropna_fixture:
  "dropna fixture =
     \<lparr>columns = [''type'', ''rating'', ''country'', ''date_added''],
      rows = [[Str ''Movie'', Str ''PG'', Str ''USA'', Str ''September 25, 2021''],
              [Str ''TV Show'', Str ''PG'', Str ''USA, India'', Str ''July 1, 2019'']]\<rparr>"
  by (simp add: dropna_def fixture_def isna_def)

lemma fixture_dates:
  "getitem (dropna fixture) ''date_added'' = Inr [Str ''September 25, 2021'', Str ''July 1, 2019'']"
  by (simp add: dropna_fixture getitem_def)

lemma fixture_parsed:
  "fixture_to_datetime [Str ''September 25, 2021'', Str ''July 1, 2019''] = Inr [Date 18895, Date 18078]"
  by (simp add: fixture_to_datetime_def fixture_date_def)

lemma civil_fixture:
  "civil 18895 = (2021, 9, 25)" "civil 18078 = (2019, 7, 1)" "civil (- 354650) = (999, 1, 1)"
  "civil 0 = (1970, 1, 1)" "civil 11016 = (2000, 2, 29)"
  by code_simp+

lemma fixture_file: "fixture_fs ''netflix_titles.csv'' = Some fixture"
  by (simp add: fixture_fs_def)

lemma load_data_fixture:
  "load_data fixture_fs fixture_to_datetime empty_store ''netflix_titles.csv'' =
     Inr ((0, 2), \<lparr>next_id = 3, frames = [0 \<mapsto> fixture, 1 \<mapsto> fixture, 2 \<mapsto> fixture_cleaned]\<rparr>)"
proof -
  have "set_column (set_column (set_column (set_column (dropna fixture)
          ''date_added'' [Date 18895, Date 18078])
          ''day_added'' (map (\<lambda>c. Num (ts_day (date_of c))) [Date 18895, Date 18078]))
          ''year_added'' (map (\<lambda>c. Num (ts_year (date_of c))) [Date 18895, Date 18078]))
          ''month_added'' (map (\<lambda>c. Num (ts_month (date_of c))) [Date 18895, Date 18078])
        = fixture_cleaned"
    by (simp add: dropna_fixture set_column_def fixture_cleaned_def ts_day_def ts_year_def
        ts_month_def civil_fixture)
  then show ?thesis
    using load_data_ok[where fs=fixture_fs and p="''netflix_titles.csv''" and t=fixture
        and to_datetime=fixture_to_datetime and st=empty_store
        and dates="[Date 18895, Date 18078]", OF fixture_file wf_fixture fixture_dates
        fixture_parsed]
    by (simp add: empty_store_def numeral_2_eq_2)
qed

section \<open>Facts about the calendar\<close>

lemma div_bounds:
  fixes a b :: int
  assumes "0 < b"
  shows "b * (a div b) \<le> a \<and> a < b * (a div b) + b"
proof -
  have "a = b * (a div b) + a mod b" by simp
  moreover have "0 \<le> a mod b" "a mod b < b" using assms by simp_all
  ultimately show ?thesis by linarith
qed

text \<open>Whatever the day number, the month is one of twelve and the day one of thirty-one.\<close>

lemma civil_bounds:
  "1 \<le> fst (snd (civil z)) \<and> fst (snd (civil z)) \<le> 12
   \<and> 1 \<le> snd (snd (civil z)) \<and> snd (snd (civil z)) \<le> 31"
proof -
  define r2 where "r2 = (((z + 719468) mod 146097) - min 3 (((z + 719468) mod 146097) div 36524) * 36524) mod 1461"
  define k where "k = r2 div 365"
  define doy where "doy = r2 - min 3 k * 365"
  define mp where "mp = (5 * doy + 2) div 153"
  define q where "q = (153 * mp + 2) div 5"
  have r2: "0 \<le> r2" "r2 \<le> 1460" by (simp_all add: r2_def)
  have k: "365 * k \<le> r2" "r2 < 365 * k + 365"
    using div_bounds[of 365 r2] by (simp_all add: k_def)
  have doy: "0 \<le> doy" "doy \<le> 365"
    using r2 k unfolding doy_def min_def by (cases "3 \<le> k"; simp; linarith)+
  have mp: "153 * mp \<le> 5 * doy + 2" "5 * doy + 2 < 153 * mp + 153"
    using div_bounds[of 153 "5 * doy + 2"] by (simp_all add: mp_def)
  have mpb: "0 \<le> mp" "mp \<le> 11" using mp doy by linarith+
  have q: "5 * q \<le> 153 * mp + 2" "153 * mp + 2 < 5 * q + 5"
    using div_bounds[of 5 "153 * mp + 2"] by (simp_all add: q_def)
  have d: "1 \<le> doy - q + 1" "doy - q + 1 \<le> 31"
    using mp q by linarith+
  have m: "1 \<le> (if mp < 10 then mp + 3 else mp - 9)" "(if mp < 10 then mp + 3 else mp - 9) \<le> 12"
    using mpb by auto
  have "civil z = (if (if mp < 10 then mp + 3 else mp - 9) \<le> 2
      then ((z + 719468) div 146097) * 400 + min 3 (((z + 719468) mod 146097) div 36524) * 100
        + ((((z + 719468) mod 146097) - min 3 (((z + 719468) mod 146097) div 36524) * 36524) div 1461) * 4 + min 3 k + 1
      else ((z + 719468) div 146097) * 400 + min 3 (((z + 719468) mod 146097) div 36524) * 100
        + ((((z + 719468) mod 146097) - min 3 (((z + 719468) mod 146097) div 36524) * 36524) div 1461) * 4 + min 3 k,
      if mp < 10 then mp + 3 else mp - 9, doy - q + 1)"
    unfolding civil_def Let_def q_def mp_def doy_def k_def r2_def by (rule refl)
  then show ?thesis using d m by simp
qed

lemma ts_ranges:
  "1 \<le> ts_day z \<and> ts_day z \<le> 31 \<and> 1 \<le> ts_month z \<and> ts_month z \<le> 12"
  using civil_bounds[of z] by (simp add: ts_day_def ts_month_def)

section \<open>The catalog of the year 999, evaluated\<close>

lemma wf_early: "wf_table early_catalog"
  by (simp add: wf_table_def early_catalog_def)

lemma early_file: "early_fs ''netflix_titles.csv'' = Some early_catalog"
  by (simp add: early_fs_def)

lemma early_dates: "getitem (dropna early_catalog) ''date_added'' = Inr [Str ''0999-01-01'']"
  by (simp add: getitem_def dropna_def early_catalog_def isna_def)

lemma early_parsed: "fixture_to_datetime [Str ''0999-01-01''] = Inr [Date (- 354650)]"
  by (simp add: fixture_to_datetime_def fixture_date_def)

lemma load_data_early:
  "load_data early_fs fixture_to_datetime empty_store ''netflix_titles.csv'' =
     Inr ((0, 2),
          \<lparr>next_id = 3, frames = [0 \<mapsto> early_catalog, 1 \<mapsto> early_catalog, 2 \<mapsto> early_cleaned]\<rparr>)"
proof -
  have "set_column (set_column (set_column (set_column (dropna early_catalog)
          ''date_added'' [Date (- 354650)])
          ''day_added'' (map (\<lambda>c. Num (ts_day (date_of c))) [Date (- 354650)]))
          ''year_added'' (map (\<lambda>c. Num (ts_year (date_of c))) [Date (- 354650)]))
          ''month_added'' (map (\<lambda>c. Num (ts_month (date_of c))) [Date (- 354650)])
        = early_cleaned"
    by (simp add: dropna_def early_catalog_def isna_def set_column_def early_cleaned_def
        ts_day_def ts_year_def ts_month_def civil_fixture)
  then show ?thesis
    using load_data_ok[where fs=early_fs and p="''netflix_titles.csv''" and t=early_catalog
        and to_datetime=fixture_to_datetime and st=empty_store
        and dates="[Date (- 354650)]", OF early_file wf_early early_dates early_parsed]
    by (simp add: empty_store_def numeral_2_eq_2)
qed

section \<open>Facts about counting\<close>

lemma set_unique: "set (unique xs) = set xs"
  by (simp add: unique_def)

lemma distinct_unique: "distinct (unique xs)"
  by (simp add: unique_def)

lemma sum_count_list_distinct:
  assumes "distinct ks" "set vals \<subseteq> set ks"
  shows "sum_list (map (count_list vals) ks) = length vals"
proof -
  have "sum_list (map (count_list vals) ks) = sum (count_list vals) (set ks)"
    using assms(1) by (simp add: sum_list_distinct_conv_sum_set)
  also have "\<dots> = length vals"
    using assms(2) by (simp add: sum_count_set)
  finally show ?thesis .
qed

lemma sum_list_sort_key:
  fixes g :: "'a \<Rightarrow> nat"
  shows "sum_list (map g (sort_key f xs)) = sum_list (map g xs)"
proof -
  have "sum_mset (mset (map g (sort_key f xs))) = sum_mset (mset (map g xs))" by simp
  then show ?thesis by (simp only: sum_mset_sum_list)
qed

lemma value_counts_set:
  "set (value_counts col) = (\<lambda>k. (k, count_list (filter (\<lambda>c. \<not> isna c) col) k)) ` (set col - {NaN})"
  by (auto simp: value_counts_def Let_def set_unique isna_def)

lemma value_counts_keys_set: "set (map fst (value_counts col)) = set col - {NaN}"
  by (force simp: value_counts_set)

lemma count_list_filter_notna:
  "k \<noteq> NaN \<Longrightarrow> count_list (filter (\<lambda>c. \<not> isna c) col) k = count_list col k"
  by (induction col) (auto simp: isna_def)

lemma value_counts_entry:
  "(k, n) \<in> set (value_counts col) \<Longrightarrow> k \<noteq> NaN \<and> k \<in> set col \<and> n = count_list col k \<and> 0 < n"
proof -
  assume "(k, n) \<in> set (value_counts col)"
  then have k: "k \<in> set col" "k \<noteq> NaN" and n: "n = count_list col k"
    by (auto simp: value_counts_set count_list_filter_notna)
  from k(1) have "count_list col k \<noteq> 0" by (simp add: count_list_0_iff)
  with k n show ?thesis by simp
qed

lemma value_counts_keys_distinct: "distinct (map fst (value_counts col))"
proof -
  let ?vals = "filter (\<lambda>c. \<not> isna c) col"
  let ?ps = "map (\<lambda>k. (k, count_list ?vals k)) (unique ?vals)"
  have "distinct (map fst ?ps)" by (simp add: comp_def distinct_unique)
  then have "distinct (map fst (sort_key (\<lambda>(k, n). - int n) ?ps))"
    by (simp only: distinct_map distinct_sort set_sort) 
  then show ?thesis by (simp add: value_counts_def Let_def)
qed

lemma value_counts_sum: "sum_list (map snd (value_counts col)) = length (filter (\<lambda>c. \<not> isna c) col)"
proof -
  let ?vals = "filter (\<lambda>c. \<not> isna c) col"
  have "sum_list (map snd (value_counts col)) = sum_list (map (count_list ?vals) (unique ?vals))"
    by (simp add: value_counts_def Let_def sum_list_sort_key comp_def)
  also have "\<dots> = length ?vals"
    by (rule sum_count_list_distinct) (simp_all add: distinct_unique set_unique)
  finally show ?thesis .
qed

lemma value_counts_descending: "sorted_wrt (\<lambda>a b. a \<ge> b) (map snd (value_counts col))"
proof -
  let ?key = "\<lambda>(k :: cell, n :: nat). - int n"
  have "sorted (map ?key (value_counts col))"
    by (simp add: value_counts_def Let_def)
  then have "sorted_wrt (\<lambda>p q. ?key p \<le> ?key q) (value_counts col)"
    by (simp add: sorted_map)
  then have "sorted_wrt (\<lambda>p q. snd p \<ge> snd q) (value_counts col)"
    by (rule sorted_wrt_mono_rel[rotated]) auto
  then show ?thesis by (simp add: sorted_wrt_map)
qed

lemma value_counts_length: "length (value_counts col) = card (set col - {NaN})"
proof -
  have "length (value_counts col) = length (map fst (value_counts col))" by simp
  also have "\<dots> = card (set (map fst (value_counts col)))"
    using value_counts_keys_distinct by (simp only: distinct_card)
  finally show ?thesis by (simp only: value_counts_keys_set)
qed

lemma countplot_value_counts_order:
  "countplot x (Some (map fst (value_counts x))) = value_counts x"
proof -
  have "map (\<lambda>k. (k, count_list (filter (\<lambda>c. \<not> isna c) x) k)) (map fst (value_counts x))
      = map (\<lambda>p. p) (value_counts x)"
    unfolding map_map by (rule map_cong) (auto simp: value_counts_set)
  then show ?thesis by (simp add: countplot_def)
qed

lemma categorical_order_set: "set (categorical_order col) = set col - {NaN}"
  by (auto simp: categorical_order_def Let_def set_unique isna_def)

lemma categorical_order_distinct: "distinct (categorical_order col)"
  by (simp add: categorical_order_def Let_def distinct_unique)

lemma countplot_default_sum:
  "sum_list (map snd (countplot x None)) = length (filter (\<lambda>c. \<not> isna c) x)"
proof -
  have "sum_list (map snd (countplot x None))
      = sum_list (map (count_list (filter (\<lambda>c. \<not> isna c) x)) (categorical_order x))"
    by (simp add: countplot_def comp_def)
  also have "\<dots> = length (filter (\<lambda>c. \<not> isna c) x)"
    by (rule sum_count_list_distinct) (auto simp: categorical_order_distinct categorical_order_set isna_def)
  finally show ?thesis .
qed

section \<open>Facts about the renderers\<close>

lemma pie_Some:
  "pie x labels (Some ex) =
     (if length x = length labels \<and> length x = length ex
      then Inr (map (\<lambda>(n, l, e). \<lparr>wedge_label = l, wedge_size = n, wedge_explode = e\<rparr>)
                  (zip x (zip labels ex)))
      else Inl ValueError)"
  by (simp add: pie_def)

lemma pie_None:
  "pie x labels None =
     (if length x = length labels
      then Inr (map (\<lambda>(n, l, e). \<lparr>wedge_label = l, wedge_size = n, wedge_explode = e\<rparr>)
                  (zip x (zip labels (replicate (length x) 0))))
      else Inl ValueError)"
  by (simp add: pie_def)

lemma wedge_sizes_zip:
  "length x = length labels \<Longrightarrow> length x = length ex \<Longrightarrow>
   map wedge_size (map (\<lambda>(n, l, e). \<lparr>wedge_label = l, wedge_size = n, wedge_explode = e\<rparr>)
                  (zip x (zip labels ex))) = x"
  by (intro nth_equalityI) auto

lemma wedge_labels_zip:
  "length x = length labels \<Longrightarrow> length x = length ex \<Longrightarrow>
   map wedge_label (map (\<lambda>(n, l, e). \<lparr>wedge_label = l, wedge_size = n, wedge_explode = e\<rparr>)
                  (zip x (zip labels ex))) = labels"
  by (intro nth_equalityI) auto

lemma pie_InrD:
  "pie x labels ex = Inr ws \<Longrightarrow> map wedge_size ws = x \<and> map wedge_label ws = labels"
  by (cases ex)
    (auto simp: pie_Some pie_None wedge_sizes_zip wedge_labels_zip simp del: map_map
      split: if_splits)

lemma plot_type_distribution_eq:
  assumes "frames st df = Some t" "getitem t ''type'' = Inr col"
  shows "plot_type_distribution st df =
     ((case pie (map snd (value_counts col)) [''Movie'', ''TV Show''] (Some [0, 0.05]) of
         Inl e \<Rightarrow> Inl e
       | Inr ws \<Rightarrow>
           Inr (\<lparr>bar_title = ''Count of Content Type'', bar_rotation = 0,
                  bars = countplot col None\<rparr>,
                \<lparr>pie_title = ''Percentage Distribution of Content Type'',
                  autopct = ''%1.1f%%'', wedges = ws\<rparr>)), st)"
  using assms by (simp add: plot_type_distribution_def ebind_def df_getitem_def Let_def)

lemma plot_rating_distribution_eq:
  assumes "frames st df = Some t" "getitem t ''rating'' = Inr col"
  shows "plot_rating_distribution st df =
     ((case plot_pie (value_counts col) of
         Inl e \<Rightarrow> Inl e
       | Inr ws \<Rightarrow>
           Inr (\<lparr>bar_title = ''Count of Content by Rating'', bar_rotation = 70,
                  bars = value_counts col\<rparr>,
                \<lparr>pie_title = ''Percentage Distribution of Content by Rating'',
                  autopct = ''%1.1f%%'', wedges = ws\<rparr>)), st)"
  using assms
  by (simp add: plot_rating_distribution_def ebind_def df_getitem_def Let_def
      countplot_value_counts_order cong: sum.case_cong)

lemma plot_type_vs_rating_eq:
  assumes "frames st df = Some t" "getitem t ''rating'' = Inr col" "getitem t ''type'' = Inr hue"
  shows "plot_type_vs_rating st df =
     (Inr \<lparr>grouped_title = ''Relation between Type (Movie/TV Show) and Rating'',
           grouped_rotation = 70,
           groups = countplot_hue col hue (map fst (value_counts col))\<rparr>, st)"
  using assms
  by (simp add: plot_type_vs_rating_def ebind_def df_getitem_def data_column_def Let_def)

lemma groups_keys: "map fst (countplot_hue x hue order) = order"
  by (simp add: countplot_hue_def Let_def comp_def)

lemma plot_pie_ok:
  "counts \<noteq> [] \<Longrightarrow> \<exists>ws. plot_pie counts = Inr ws"
  by (simp add: plot_pie_def pie_None)

lemma one_frame_0: "frames (one_frame df) 0 = Some df"
  by (simp add: one_frame_def)

lemma fixture_type: "getitem fixture ''type'' = Inr [Str ''Movie'', Str ''TV Show'', Str ''TV Show'']"
  by (simp add: getitem_def fixture_def)

lemma fixture_rating: "getitem fixture ''rating'' = Inr [Str ''PG'', Str ''PG'', Str ''TV-MA'']"
  by (simp add: getitem_def fixture_def)

lemma fixture_type_counts:
  "value_counts [Str ''Movie'', Str ''TV Show'', Str ''TV Show''] = [(Str ''TV Show'', 2), (Str ''Movie'', 1)]"
  by (simp add: value_counts_def unique_def isna_def)

lemma fixture_type_bars:
  "countplot [Str ''Movie'', Str ''TV Show'', Str ''TV Show''] None = [(Str ''Movie'', 1), (Str ''TV Show'', 2)]"
  by (simp add: countplot_def categorical_order_def unique_def isna_def)

lemma filter_notna: "filter (\<lambda>c. \<not> isna c) col = filter (\<lambda>c. c \<noteq> NaN) col"
  by (simp add: isna_def)

lemma missing_type_column:
  "getitem missing_type ''type'' = Inr [Str ''Movie'', Str ''TV Show'', NaN]"
  by (simp add: getitem_def missing_type_def)

lemma missing_type_counts:
  "value_counts [Str ''Movie'', Str ''TV Show'', NaN] = [(Str ''Movie'', 1), (Str ''TV Show'', 1)]"
  by (simp add: value_counts_def unique_def isna_def)

lemma missing_type_bars:
  "countplot [Str ''Movie'', Str ''TV Show'', NaN] None = [(Str ''Movie'', 1), (Str ''TV Show'', 1)]"
  by (simp add: countplot_def categorical_order_def unique_def isna_def)

lemma missing_type_plot:
  "plot_type_distribution (one_frame missing_type) 0 =
     (Inr (\<lparr>bar_title = ''Count of Content Type'', bar_rotation = 0,
            bars = [(Str ''Movie'', 1), (Str ''TV Show'', 1)]\<rparr>,
           \<lparr>pie_title = ''Percentage Distribution of Content Type'', autopct = ''%1.1f%%'',
            wedges = [\<lparr>wedge_label = ''Movie'', wedge_size = 1, wedge_explode = 0\<rparr>,
                      \<lparr>wedge_label = ''TV Show'', wedge_size = 1, wedge_explode = 0.05\<rparr>]\<rparr>),
      one_frame missing_type)"
  using plot_type_distribution_eq[OF one_frame_0 missing_type_column]
  by (simp add: missing_type_counts missing_type_bars pie_Some)

lemma fixture_rating_counts:
  "value_counts [Str ''PG'', Str ''PG'', Str ''TV-MA''] = [(Str ''PG'', 2), (Str ''TV-MA'', 1)]"
  by (simp add: value_counts_def unique_def isna_def)

lemma only_movies_type: "getitem only_movies ''type'' = Inr [Str ''Movie'', Str ''Movie'']"
  by (simp add: getitem_def only_movies_def)

section \<open>Facts about the text of the word cloud\<close>

declare str_replace.simps [simp del]

lemma str_replace_comma_Nil: "str_replace '','' [] [] = []"
  by (subst str_replace.simps) simp

lemma str_replace_comma_Cons:
  "str_replace '','' [] (c # cs) =
     (if c = CHR '','' then str_replace '','' [] cs else c # str_replace '','' [] cs)"
  by (subst str_replace.simps) simp

lemma str_replace_comma: "str_replace '','' [] s = strip_commas s"
  by (induction s) (simp_all add: str_replace_comma_Nil str_replace_comma_Cons strip_commas_def)


lemma strip_commas_id: "CHR '','' \<notin> set s \<Longrightarrow> strip_commas s = s"
  by (auto simp: strip_commas_def filter_id_conv)

lemma foldl_spaced:
  "foldl (\<lambda>acc x. acc @ CHR '' '' # x) v vs = v @ concat (map (\<lambda>x. CHR '' '' # x) vs)"
  by (induction vs arbitrary: v) simp_all

lemma join_space_Cons: "join '' '' (x # xs) = x @ concat (map (\<lambda>y. CHR '' '' # y) xs)"
  by (induction xs arbitrary: x) simp_all

lemma join_spaced: "join '' '' xs = spaced xs"
  by (cases xs) (simp_all add: join_space_Cons foldl_spaced)

lemma tokens_from_space:
  "tokens_from w (u @ CHR '' '' # v) = tokens_from w u @ tokens_from [] v"
  by (induction u arbitrary: w) simp_all


lemma tokens_from_spaced:
  "tokens_from w (x @ concat (map (\<lambda>y. CHR '' '' # y) xs)) =
     tokens_from w x @ concat (map tokens xs)"
proof (induction xs arbitrary: w x)
  case Nil
  show ?case by simp
next
  case (Cons y ys)
  have "tokens_from w (x @ CHR '' '' # (y @ concat (map (\<lambda>y. CHR '' '' # y) ys))) =
      tokens_from w x @ tokens_from [] (y @ concat (map (\<lambda>y. CHR '' '' # y) ys))"
    by (rule tokens_from_space)
  with Cons.IH[of "[]" y] show ?case by (simp add: tokens_def)
qed

lemma tokens_join: "tokens (join '' '' xs) = concat (map tokens xs)"
proof (cases xs)
  case Nil
  then show ?thesis by (simp add: tokens_def)
next
  case (Cons x ys)
  then show ?thesis
    using tokens_from_spaced[of "[]" x ys] by (simp add: join_space_Cons tokens_def)
qed

lemma tokens_from_word:
  "CHR '' '' \<notin> set u \<Longrightarrow> w @ u \<noteq> [] \<Longrightarrow> tokens_from w u = [w @ u]"
  by (induction u arbitrary: w) auto

lemma tokens_word: "CHR '' '' \<notin> set u \<Longrightarrow> u \<noteq> [] \<Longrightarrow> tokens u = [u]"
  using tokens_from_word[of u "[]"] by (simp add: tokens_def)

lemma generate_wordcloud_eq:
  assumes "frames st df = Some t" "getitem t column_name = Inr col"
  shows "generate_wordcloud process_text layout st rng df column_name title =
     (let text = wordcloud_text_spec (map astype_str col)
      in if process_text text = [] then (Inl ValueError, rng)
         else (Inr \<lparr>wc_title = title, wc_text = text,
                     wc_image = fst (layout rng (process_text text))\<rparr>,
               snd (layout rng (process_text text))))"
  using assms
  by (simp add: generate_wordcloud_def df_getitem_def Let_def str_replace_comma join_spaced
      wordcloud_text_spec_def comp_def split_beta)

lemma tokens_text_spec:
  "tokens (wordcloud_text_spec vals) = concat (map (\<lambda>v. tokens (strip_commas v)) vals)"
  by (simp add: wordcloud_text_spec_def join_spaced[symmetric] tokens_join comp_def)

lemma fixture_cleaned_country:
  "getitem fixture_cleaned ''country'' = Inr [Str ''USA'', Str ''USA, India'']"
  by (simp add: getitem_def fixture_cleaned_def)

lemma fixture_text: "wordcloud_text_spec [''USA'', ''USA, India''] = ''USA USA India''"
  by (simp add: wordcloud_text_spec_def strip_commas_def)

lemma fixture_tokens: "tokens ''USA USA India'' = [''USA'', ''USA'', ''India'']"
  by (simp add: tokens_def)

lemma fixture_words: "sample_process_text ''USA USA India'' = [(''USA'', 2), (''India'', 1)]"
  by (simp add: sample_process_text_def fixture_tokens unique_def)

section \<open>Facts about the tokens of two joined texts\<close>













section \<open>Facts about the cache\<close>

lemma cached_load_data_hit:
  "cache p = Some (raw, cleaned) \<Longrightarrow>
   cached_load_data cache fs parse st p =
     (Inr (next_id st, Suc (next_id st)),
      st\<lparr>next_id := Suc (Suc (next_id st)),
         frames := (frames st)(next_id st \<mapsto> raw, Suc (next_id st) \<mapsto> cleaned)\<rparr>,
      cache)"
  by (simp add: cached_load_data_def alloc_def)

lemma cached_load_data_cases:
  assumes "cached_load_data cache fs parse st p = (r1, st1, c1)"
  obtains (hit) raw cleaned where "cache p = Some (raw, cleaned)"
    | (failed) e where "r1 = Inl e" "st1 = st" "c1 = cache"
    | (stored) r d raw cleaned where "cache p = None" "r1 = Inr (r, d)"
        "frames st1 r = Some raw" "frames st1 d = Some cleaned" "c1 = cache(p \<mapsto> (raw, cleaned))"
proof (cases "cache p")
  case (Some v)
  then show ?thesis using hit by (cases v) auto
next
  case None
  show ?thesis
  proof (cases "load_data fs parse st p")
    case (Inl e)
    with None assms show ?thesis by (intro failed[of e]) (auto simp: cached_load_data_def)
  next
    case (Inr v)
    obtain r d st' where v: "v = ((r, d), st')" by (cases v) auto
    show ?thesis
    proof (cases "frames st' r")
      case n: None
      with None Inr v assms show ?thesis
        by (intro failed[of DanglingReference]) (auto simp: cached_load_data_def)
    next
      case sr: (Some raw)
      show ?thesis
      proof (cases "frames st' d")
        case n: None
        with None Inr v sr assms show ?thesis
          by (intro failed[of DanglingReference]) (auto simp: cached_load_data_def)
      next
        case sd: (Some cleaned)
        with None Inr v sr assms show ?thesis
          by (intro stored[of r d raw cleaned]) (auto simp: cached_load_data_def)
      qed
    qed
  qed
qed

lemma cached_load_data_twice:
  assumes "cached_load_data c fs parse st p = (r1, st1, c1)"
    and "cached_load_data c1 fs parse st1 p = (r2, st2, c2)"
  shows "case r1 of
           Inl e \<Rightarrow> r2 = Inl e
         | Inr (raw1, df1) \<Rightarrow>
             (\<exists>raw2 df2. r2 = Inr (raw2, df2)
                \<and> frames st1 raw1 \<noteq> None \<and> frames st1 df1 \<noteq> None
                \<and> frames st2 raw2 = frames st1 raw1 \<and> frames st2 df2 = frames st1 df1)"
  using assms(1)
proof (cases rule: cached_load_data_cases)
  case (hit raw cleaned)
  from assms(1) have 1: "r1 = Inr (next_id st, Suc (next_id st))"
    "st1 = st\<lparr>next_id := Suc (Suc (next_id st)),
         frames := (frames st)(next_id st \<mapsto> raw, Suc (next_id st) \<mapsto> cleaned)\<rparr>" "c1 = c"
    by (simp_all add: cached_load_data_hit[where cache=c and p=p, OF hit])
  from hit 1(3) have hit1: "c1 p = Some (raw, cleaned)" by simp
  from assms(2) have 2: "r2 = Inr (next_id st1, Suc (next_id st1))"
    "st2 = st1\<lparr>next_id := Suc (Suc (next_id st1)),
         frames := (frames st1)(next_id st1 \<mapsto> raw, Suc (next_id st1) \<mapsto> cleaned)\<rparr>"
    by (simp_all add: cached_load_data_hit[where cache=c1 and p=p, OF hit1])
  show ?thesis unfolding 2 unfolding 1 by simp
next
  case (failed e)
  with assms have "r2 = r1" by simp
  with failed show ?thesis by simp
next
  case (stored r d raw cleaned)
  then have hit: "c1 p = Some (raw, cleaned)" by simp
  from assms(2) have 2: "r2 = Inr (next_id st1, Suc (next_id st1))"
    "st2 = st1\<lparr>next_id := Suc (Suc (next_id st1)),
         frames := (frames st1)(next_id st1 \<mapsto> raw, Suc (next_id st1) \<mapsto> cleaned)\<rparr>"
    by (simp_all add: cached_load_data_hit[where cache=c1 and p=p, OF hit])
  show ?thesis unfolding 2 using stored by simp
qed

lemma generate_wordcloud_error:
  "generate_wordcloud pt layout st rng df c title = (Inl e, rng') \<Longrightarrow>
     rng' = rng \<and> generate_wordcloud pt layout st rng2 df c title = (Inl e, rng2)"
  by (auto simp: generate_wordcloud_def Let_def split: sum.splits if_splits prod.splits)

lemma cached_generate_wordcloud_twice:
  assumes "cached_generate_wordcloud k pt layout s rng df c title = (w1, rng1, k1)"
    and "cached_generate_wordcloud k1 pt layout s rng1 df c title = (w2, rng2, k2)"
  shows "w2 = w1"
proof (cases "frames s df")
  case None
  with assms show ?thesis by (simp add: cached_generate_wordcloud_def)
next
  case (Some t)
  show ?thesis
  proof (cases "k (t, c, title)")
    case hit: (Some fig)
    with Some assms show ?thesis by (simp add: cached_generate_wordcloud_def)
  next
    case None
    obtain res rng' where g: "generate_wordcloud pt layout s rng df c title = (res, rng')"
      by (cases "generate_wordcloud pt layout s rng df c title") auto
    show ?thesis
    proof (cases res)
      case (Inl e)
      with g generate_wordcloud_error[of pt layout s rng df c title e rng' rng]
      have same: "rng' = rng" by simp
      from Inl g None Some assms(1) have 1: "w1 = Inl e" "rng1 = rng'" "k1 = k"
        by (simp_all add: cached_generate_wordcloud_def)
      with same Inl g None Some assms(2) show ?thesis
        by (simp add: cached_generate_wordcloud_def)
    next
      case (Inr fig)
      with g None Some assms(1) have 1: "w1 = Inr fig" "k1 = k((t, c, title) \<mapsto> fig)"
        by (simp_all add: cached_generate_wordcloud_def)
      with Some assms(2) show ?thesis by (simp add: cached_generate_wordcloud_def)
    qed
  qed
qed

lemma first_load:
  "cached_load_data Map.empty fixture_fs fixture_to_datetime empty_store ''netflix_titles.csv'' =
     (Inr (0, 2),
      \<lparr>next_id = 3, frames = [0 \<mapsto> fixture, 1 \<mapsto> fixture, 2 \<mapsto> fixture_cleaned]\<rparr>,
      [''netflix_titles.csv'' \<mapsto> (fixture, fixture_cleaned)])"
  by (simp add: cached_load_data_def load_data_fixture)

lemma second_load:
  "cached_load_data [''netflix_titles.csv'' \<mapsto> (fixture, fixture_cleaned)] fixture_fs fixture_to_datetime
      \<lparr>next_id = 3, frames = [0 \<mapsto> fixture, 1 \<mapsto> fixture, 2 \<mapsto> fixture_cleaned]\<rparr>
      ''netflix_titles.csv'' =
     (Inr (3, 4),
      \<lparr>next_id = 5, frames = [0 \<mapsto> fixture, 1 \<mapsto> fixture, 2 \<mapsto> fixture_cleaned,
                               3 \<mapsto> fixture, 4 \<mapsto> fixture_cleaned]\<rparr>,
      [''netflix_titles.csv'' \<mapsto> (fixture, fixture_cleaned)])"
  by (simp add: cached_load_data_def alloc_def eval_nat_numeral)

lemma fixture_cloud:
  "generate_wordcloud sample_process_text sample_layout (one_frame fixture_cleaned) rng 0
     ''country'' title =
     (Inr \<lparr>wc_title = title, wc_text = ''USA USA India'',
           wc_image = rotate rng [(''USA'', 2), (''India'', 1)]\<rparr>, Suc rng)"
  by (simp add: generate_wordcloud_eq[OF one_frame_0 fixture_cleaned_country] fixture_text
      fixture_words sample_layout_def)

lemma first_cloud:
  "cached_generate_wordcloud Map.empty sample_process_text sample_layout
      (one_frame fixture_cleaned) 0 0 ''country'' ''Countries'' =
     (Inr \<lparr>wc_title = ''Countries'', wc_text = ''USA USA India'',
           wc_image = [(''USA'', 2), (''India'', 1)]\<rparr>, 1,
      [(fixture_cleaned, ''country'', ''Countries'') \<mapsto>
         \<lparr>wc_title = ''Countries'', wc_text = ''USA USA India'',
          wc_image = [(''USA'', 2), (''India'', 1)]\<rparr>])"
  by (simp add: cached_generate_wordcloud_def one_frame_0 fixture_cloud)

lemma second_cloud:
  "cached_generate_wordcloud
      [(fixture_cleaned, ''country'', ''Countries'') \<mapsto>
         \<lparr>wc_title = ''Countries'', wc_text = ''USA USA India'',
          wc_image = [(''USA'', 2), (''India'', 1)]\<rparr>]
      sample_process_text sample_layout (one_frame fixture_cleaned) 1 0 ''country'' ''Countries'' =
     (Inr \<lparr>wc_title = ''Countries'', wc_text = ''USA USA India'',
           wc_image = [(''USA'', 2), (''India'', 1)]\<rparr>, 1,
      [(fixture_cleaned, ''country'', ''Countries'') \<mapsto>
         \<lparr>wc_title = ''Countries'', wc_text = ''USA USA India'',
          wc_image = [(''USA'', 2), (''India'', 1)]\<rparr>])"
  by (simp add: cached_generate_wordcloud_def one_frame_0)

section \<open>C1: the raw and the cleaned table\<close>

text \<open>
  Claim C1, as amended. When the file exists and parses to a well-formed table with a column
  \<^verbatim>\<open>date_added\<close>, and \<^verbatim>\<open>pd.to_datetime\<close> turns that column of the complete rows into a
  column of timestamps, one per row, the loader returns two references: the raw table is the
  parsed file, verbatim; the cleaned table has exactly as many rows as the raw table has rows
  without a missing field, hence at most as many rows as the raw table; every column of the
  cleaned table other than \<^verbatim>\<open>date_added\<close> and the three derived ones is the column of the
  raw table with the incomplete rows removed; the column \<^verbatim>\<open>date_added\<close> holds the timestamps
  instead of the original texts, and the columns \<^verbatim>\<open>day_added\<close>, \<^verbatim>\<open>year_added\<close> and
  \<^verbatim>\<open>month_added\<close> are added.
\<close>

theorem load_data_raw_and_cleaned:
  assumes "fs file_path = Some t" and "wf_table t"
    and "getitem (dropna t) ''date_added'' = Inr col"
    and "to_datetime col = Inr dates"
    and "length dates = length col"
    and "list_all is_date dates"
  shows "\<exists>raw df st' cleaned.
      load_data fs to_datetime st file_path = Inr ((raw, df), st')
    \<and> frames st' raw = Some t
    \<and> frames st' df = Some cleaned
    \<and> length (rows cleaned) = length (filter (\<lambda>r. NaN \<notin> set r) (rows t))
    \<and> length (rows cleaned) \<le> length (rows t)
    \<and> set (columns cleaned) = set (columns t) \<union> {''day_added'', ''year_added'', ''month_added''}
    \<and> (\<forall>c. c \<notin> {''date_added'', ''day_added'', ''year_added'', ''month_added''}
            \<longrightarrow> getitem cleaned c = getitem (dropna t) c)
    \<and> getitem cleaned ''date_added'' = Inr dates"
proof -
  let ?b = "map (\<lambda>c. Num (ts_day (date_of c))) dates"
  let ?e = "map (\<lambda>c. Num (ts_year (date_of c))) dates"
  let ?f = "map (\<lambda>c. Num (ts_month (date_of c))) dates"
  let ?cl = "set_column (set_column (set_column (set_column (dropna t)
               ''date_added'' dates) ''day_added'' ?b) ''year_added'' ?e) ''month_added'' ?f"
  let ?st = "st\<lparr>next_id := next_id st + 3,
                 frames := (frames st)(next_id st \<mapsto> t, Suc (next_id st) \<mapsto> t, next_id st + 2 \<mapsto> ?cl)\<rparr>"
  have wfd: "wf_table (dropna t)" using assms(2) by (rule wf_dropna)
  have run: "load_data fs to_datetime st file_path = Inr ((next_id st, next_id st + 2), ?st)"
    using assms by (rule load_data_ok)
  have raw: "frames ?st (next_id st) = Some t" by simp
  have df: "frames ?st (next_id st + 2) = Some ?cl" by simp
  have n: "length (rows ?cl) = length (rows (dropna t))"
    by (rule cleaned_columns(1)[OF wfd assms(3)]) (simp_all add: assms(5))
  have n1: "length (rows ?cl) = length (filter (\<lambda>r. NaN \<notin> set r) (rows t))"
    using n by (simp add: rows_dropna_complete)
  have n2: "length (rows ?cl) \<le> length (rows t)"
    unfolding n1 by (rule length_filter_le)
  have cols: "set (columns ?cl) = set (columns t) \<union> {''day_added'', ''year_added'', ''month_added''}"
    using cleaned_columns(8)[OF wfd assms(3), of dates ?b ?e ?f] assms(5) by (simp add: dropna_def)
  have other: "\<forall>c. c \<notin> {''date_added'', ''day_added'', ''year_added'', ''month_added''}
            \<longrightarrow> getitem ?cl c = getitem (dropna t) c"
    using cleaned_columns(7)[OF wfd assms(3), of dates ?b ?e ?f] assms(5) by simp
  have date: "getitem ?cl ''date_added'' = Inr dates"
    by (rule cleaned_columns(3)[OF wfd assms(3)]) (simp_all add: assms(5))
  show ?thesis
  proof (intro exI conjI)
    show "load_data fs to_datetime st file_path = Inr ((next_id st, next_id st + 2), ?st)"
      by (rule run)
    show "frames ?st (next_id st) = Some t" by (rule raw)
    show "frames ?st (next_id st + 2) = Some ?cl" by (rule df)
    show "length (rows ?cl) = length (filter (\<lambda>r. NaN \<notin> set r) (rows t))" by (rule n1)
    show "length (rows ?cl) \<le> length (rows t)" by (rule n2)
    show "set (columns ?cl) = set (columns t) \<union> {''day_added'', ''year_added'', ''month_added''}"
      by (rule cols)
    show "\<forall>c. c \<notin> {''date_added'', ''day_added'', ''year_added'', ''month_added''}
            \<longrightarrow> getitem ?cl c = getitem (dropna t) c" by (rule other)
    show "getitem ?cl ''date_added'' = Inr dates" by (rule date)
  qed
qed

text \<open>The theorem of C1 at the small catalog: three raw rows, two cleaned rows.\<close>

theorem load_data_raw_and_cleaned_witness:
  "fixture_fs ''netflix_titles.csv'' = Some fixture
   \<and> wf_table fixture
   \<and> getitem (dropna fixture) ''date_added'' = Inr [Str ''September 25, 2021'', Str ''July 1, 2019'']
   \<and> fixture_to_datetime [Str ''September 25, 2021'', Str ''July 1, 2019''] =
        Inr [Date 18895, Date 18078]
   \<and> length [Date 18895, Date 18078] = length [Str ''September 25, 2021'', Str ''July 1, 2019'']
   \<and> list_all is_date [Date 18895, Date 18078]
   \<and> (\<exists>raw df st' cleaned.
        load_data fixture_fs fixture_to_datetime empty_store ''netflix_titles.csv'' =
          Inr ((raw, df), st')
      \<and> frames st' raw = Some fixture
      \<and> frames st' df = Some cleaned
      \<and> length (rows cleaned) = 2
      \<and> length (rows cleaned) \<le> length (rows fixture))"
proof -
  have two: "length (filter (\<lambda>r. NaN \<notin> set r) (rows fixture)) = 2"
    by (simp add: fixture_def)
  have len: "length [Date 18895, Date 18078] = length [Str ''September 25, 2021'', Str ''July 1, 2019'']"
    and all_dates: "list_all is_date [Date 18895, Date 18078]"
    by simp_all
  from load_data_raw_and_cleaned[where fs=fixture_fs and file_path="''netflix_titles.csv''"
        and t=fixture and to_datetime=fixture_to_datetime and st=empty_store,
        OF fixture_file wf_fixture fixture_dates fixture_parsed len all_dates]
  obtain raw df st' cleaned where
    "load_data fixture_fs fixture_to_datetime empty_store ''netflix_titles.csv'' =
       Inr ((raw, df), st')"
    "frames st' raw = Some fixture" "frames st' df = Some cleaned"
    "length (rows cleaned) = length (filter (\<lambda>r. NaN \<notin> set r) (rows fixture))"
    "length (rows cleaned) \<le> length (rows fixture)"
    by (elim exE conjE)
  then have "\<exists>raw df st' cleaned.
        load_data fixture_fs fixture_to_datetime empty_store ''netflix_titles.csv'' =
          Inr ((raw, df), st')
      \<and> frames st' raw = Some fixture
      \<and> frames st' df = Some cleaned
      \<and> length (rows cleaned) = 2
      \<and> length (rows cleaned) \<le> length (rows fixture)"
    unfolding two by (intro exI conjI)
  then show ?thesis
    using fixture_file wf_fixture fixture_dates fixture_parsed len all_dates by (intro conjI)
qed

text \<open>
  Claim C1 as stated says that the cleaned table equals the raw table with the incomplete
  records removed. On the small catalog the loader returns the cleaned table
  \<open>fixture_cleaned\<close>, which is not \<open>dropna fixture\<close>: its dates are timestamps and it has
  three more columns.
\<close>

theorem cleaned_is_not_filtered_raw:
  "load_data fixture_fs fixture_to_datetime empty_store ''netflix_titles.csv'' =
     Inr ((0, 2), \<lparr>next_id = 3, frames = [0 \<mapsto> fixture, 1 \<mapsto> fixture, 2 \<mapsto> fixture_cleaned]\<rparr>)
   \<and> fixture_cleaned \<noteq> dropna fixture"
  using load_data_fixture by (simp add: dropna_fixture fixture_cleaned_def)

section \<open>C2: the derived day, month and year\<close>

text \<open>
  Claim C2, as amended. Whenever the loader returns, every record of the cleaned table holds
  a timestamp in \<^verbatim>\<open>date_added\<close>, the one that \<^verbatim>\<open>pd.to_datetime\<close> returned for that record's
  original value, and its cells \<^verbatim>\<open>day_added\<close>, \<^verbatim>\<open>month_added\<close> and \<^verbatim>\<open>year_added\<close> are the
  calendar day, month and year of that timestamp; the day is in 1..31 and the month in
  1..12. The year is the year of the timestamp, of however many digits.
\<close>

theorem derived_date_fields:
  assumes "fs file_path = Some t" and "wf_table t"
    and "load_data fs to_datetime st file_path = Inr ((raw, df), st')"
  shows "\<exists>cleaned col dates days months years.
       frames st' df = Some cleaned
     \<and> getitem (dropna t) ''date_added'' = Inr col
     \<and> to_datetime col = Inr dates
     \<and> getitem cleaned ''date_added'' = Inr dates
     \<and> getitem cleaned ''day_added'' = Inr days
     \<and> getitem cleaned ''month_added'' = Inr months
     \<and> getitem cleaned ''year_added'' = Inr years
     \<and> length col = length (rows cleaned)
     \<and> length dates = length (rows cleaned)
     \<and> (\<forall>i < length (rows cleaned). \<exists>z.
            dates ! i = Date z
          \<and> days ! i = Num (ts_day z) \<and> 1 \<le> ts_day z \<and> ts_day z \<le> 31
          \<and> months ! i = Num (ts_month z) \<and> 1 \<le> ts_month z \<and> ts_month z \<le> 12
          \<and> years ! i = Num (ts_year z))"
proof -
  from load_data_InrD[OF assms] obtain col dates where
    col: "getitem (dropna t) ''date_added'' = Inr col" and td: "to_datetime col = Inr dates"
    and len: "length dates = length col" and all_dates: "list_all is_date dates"
    by blast
  let ?b = "map (\<lambda>c. Num (ts_day (date_of c))) dates"
  let ?e = "map (\<lambda>c. Num (ts_year (date_of c))) dates"
  let ?f = "map (\<lambda>c. Num (ts_month (date_of c))) dates"
  let ?cl = "set_column (set_column (set_column (set_column (dropna t)
               ''date_added'' dates) ''day_added'' ?b) ''year_added'' ?e) ''month_added'' ?f"
  have wfd: "wf_table (dropna t)" using assms(2) by (rule wf_dropna)
  have "load_data fs to_datetime st file_path =
      Inr ((next_id st, next_id st + 2),
           st\<lparr>next_id := next_id st + 3,
              frames := (frames st)(next_id st \<mapsto> t, Suc (next_id st) \<mapsto> t, next_id st + 2 \<mapsto> ?cl)\<rparr>)"
    using assms(1,2) col td len all_dates by (rule load_data_ok)
  with assms(3) have df: "frames st' df = Some ?cl" by auto
  have n: "length (rows ?cl) = length (rows (dropna t))"
    by (rule cleaned_columns(1)[OF wfd col]) (simp_all add: len)
  have lcol: "length col = length (rows ?cl)"
    using getitem_length[OF col] n by simp
  have ldates: "length dates = length (rows ?cl)"
    using lcol len by simp
  have date: "getitem ?cl ''date_added'' = Inr dates"
    by (rule cleaned_columns(3)[OF wfd col]) (simp_all add: len)
  have day: "getitem ?cl ''day_added'' = Inr ?b"
    by (rule cleaned_columns(4)[OF wfd col]) (simp_all add: len)
  have year: "getitem ?cl ''year_added'' = Inr ?e"
    by (rule cleaned_columns(5)[OF wfd col]) (simp_all add: len)
  have month: "getitem ?cl ''month_added'' = Inr ?f"
    by (rule cleaned_columns(6)[OF wfd col]) (simp_all add: len)
  have each: "\<exists>z. dates ! i = Date z
          \<and> ?b ! i = Num (ts_day z) \<and> 1 \<le> ts_day z \<and> ts_day z \<le> 31
          \<and> ?f ! i = Num (ts_month z) \<and> 1 \<le> ts_month z \<and> ts_month z \<le> 12
          \<and> ?e ! i = Num (ts_year z)"
    if "i < length (rows ?cl)" for i
  proof -
    from that ldates have i: "i < length dates" by simp
    then have "dates ! i \<in> set dates" by simp
    with all_dates have "is_date (dates ! i)" by (simp add: list_all_iff)
    then obtain z where z: "dates ! i = Date z" by (cases "dates ! i") simp_all
    with i ts_ranges[of z] show ?thesis by simp
  qed
  show ?thesis
  proof (intro exI conjI)
    show "frames st' df = Some ?cl" by (rule df)
    show "getitem (dropna t) ''date_added'' = Inr col" by (rule col)
    show "to_datetime col = Inr dates" by (rule td)
    show "getitem ?cl ''date_added'' = Inr dates" by (rule date)
    show "getitem ?cl ''day_added'' = Inr ?b" by (rule day)
    show "getitem ?cl ''month_added'' = Inr ?f" by (rule month)
    show "getitem ?cl ''year_added'' = Inr ?e" by (rule year)
    show "length col = length (rows ?cl)" by (rule lcol)
    show "length dates = length (rows ?cl)" by (rule ldates)
    show "\<forall>i < length (rows ?cl). \<exists>z. dates ! i = Date z
          \<and> ?b ! i = Num (ts_day z) \<and> 1 \<le> ts_day z \<and> ts_day z \<le> 31
          \<and> ?f ! i = Num (ts_month z) \<and> 1 \<le> ts_month z \<and> ts_month z \<le> 12
          \<and> ?e ! i = Num (ts_year z)"
      using each by blast
  qed
qed

text \<open>The theorem of C2 at the small catalog.\<close>

theorem derived_date_fields_witness:
  "fixture_fs ''netflix_titles.csv'' = Some fixture
   \<and> wf_table fixture
   \<and> load_data fixture_fs fixture_to_datetime empty_store ''netflix_titles.csv'' =
       Inr ((0, 2), \<lparr>next_id = 3, frames = [0 \<mapsto> fixture, 1 \<mapsto> fixture, 2 \<mapsto> fixture_cleaned]\<rparr>)
   \<and> (\<exists>col dates days months years.
         getitem (dropna fixture) ''date_added'' = Inr col
       \<and> fixture_to_datetime col = Inr dates
       \<and> getitem fixture_cleaned ''date_added'' = Inr dates
       \<and> getitem fixture_cleaned ''day_added'' = Inr days
       \<and> getitem fixture_cleaned ''month_added'' = Inr months
       \<and> getitem fixture_cleaned ''year_added'' = Inr years
       \<and> length col = length (rows fixture_cleaned)
       \<and> length dates = length (rows fixture_cleaned)
       \<and> (\<forall>i < length (rows fixture_cleaned). \<exists>z.
              dates ! i = Date z
            \<and> days ! i = Num (ts_day z) \<and> 1 \<le> ts_day z \<and> ts_day z \<le> 31
            \<and> months ! i = Num (ts_month z) \<and> 1 \<le> ts_month z \<and> ts_month z \<le> 12
            \<and> years ! i = Num (ts_year z)))"
proof -
  have "\<exists>cleaned col dates days months years.
       frames \<lparr>next_id = 3, frames = [0 \<mapsto> fixture, 1 \<mapsto> fixture, 2 \<mapsto> fixture_cleaned]\<rparr> 2 = Some cleaned
     \<and> getitem (dropna fixture) ''date_added'' = Inr col
     \<and> fixture_to_datetime col = Inr dates
     \<and> getitem cleaned ''date_added'' = Inr dates
     \<and> getitem cleaned ''day_added'' = Inr days
     \<and> getitem cleaned ''month_added'' = Inr months
     \<and> getitem cleaned ''year_added'' = Inr years
     \<and> length col = length (rows cleaned)
     \<and> length dates = length (rows cleaned)
     \<and> (\<forall>i < length (rows cleaned). \<exists>z.
            dates ! i = Date z
          \<and> days ! i = Num (ts_day z) \<and> 1 \<le> ts_day z \<and> ts_day z \<le> 31
          \<and> months ! i = Num (ts_month z) \<and> 1 \<le> ts_month z \<and> ts_month z \<le> 12
          \<and> years ! i = Num (ts_year z))"
    using fixture_file wf_fixture load_data_fixture by (rule derived_date_fields)
  then have "\<exists>col dates days months years.
         getitem (dropna fixture) ''date_added'' = Inr col
       \<and> fixture_to_datetime col = Inr dates
       \<and> getitem fixture_cleaned ''date_added'' = Inr dates
       \<and> getitem fixture_cleaned ''day_added'' = Inr days
       \<and> getitem fixture_cleaned ''month_added'' = Inr months
       \<and> getitem fixture_cleaned ''year_added'' = Inr years
       \<and> length col = length (rows fixture_cleaned)
       \<and> length dates = length (rows fixture_cleaned)
       \<and> (\<forall>i < length (rows fixture_cleaned). \<exists>z.
              dates ! i = Date z
            \<and> days ! i = Num (ts_day z) \<and> 1 \<le> ts_day z \<and> ts_day z \<le> 31
            \<and> months ! i = Num (ts_month z) \<and> 1 \<le> ts_month z \<and> ts_month z \<le> 12
            \<and> years ! i = Num (ts_year z))"
    by simp
  with fixture_file wf_fixture load_data_fixture show ?thesis by (intro conjI)
qed

text \<open>
  Claim C2 as stated says that the derived year has four digits. A catalog whose only title
  was added on 0999-01-01, a date that \<^verbatim>\<open>pd.to_datetime\<close> reads as the first day of the year
  999, loads, and the cleaned record has the day 1, the month 1 and the year 999.
\<close>

theorem year_added_of_three_digits:
  "load_data early_fs fixture_to_datetime empty_store ''netflix_titles.csv'' =
     Inr ((0, 2),
          \<lparr>next_id = 3, frames = [0 \<mapsto> early_catalog, 1 \<mapsto> early_catalog, 2 \<mapsto> early_cleaned]\<rparr>)
   \<and> getitem early_cleaned ''date_added'' = Inr [Date (- 354650)]
   \<and> getitem early_cleaned ''day_added'' = Inr [Num 1]
   \<and> getitem early_cleaned ''month_added'' = Inr [Num 1]
   \<and> getitem early_cleaned ''year_added'' = Inr [Num 999]
   \<and> ts_year (- 354650) = 999
   \<and> \<not> (1000 \<le> ts_year (- 354650))"
  using load_data_early by (simp add: getitem_def early_cleaned_def ts_year_def civil_fixture)

section \<open>C3: the labels of the type pie\<close>

text \<open>
  Claim C3 asks that the wedge labelled Movie shows the number of movies and the wedge
  labelled TV Show the number of TV shows. The labels are fixed in the order Movie, TV Show,
  while the sizes come from \<^verbatim>\<open>value_counts\<close>, largest first. On the small catalog, with one
  movie and two TV shows, the bar chart counts one movie and two TV shows, and the pie gives
  the wedge labelled Movie the size 2 and the wedge labelled TV Show the size 1.
\<close>

theorem type_pie_mislabels_majority_tv:
  "plot_type_distribution (one_frame fixture) 0 =
     (Inr (\<lparr>bar_title = ''Count of Content Type'', bar_rotation = 0,
            bars = [(Str ''Movie'', 1), (Str ''TV Show'', 2)]\<rparr>,
           \<lparr>pie_title = ''Percentage Distribution of Content Type'', autopct = ''%1.1f%%'',
            wedges = [\<lparr>wedge_label = ''Movie'', wedge_size = 2, wedge_explode = 0\<rparr>,
                      \<lparr>wedge_label = ''TV Show'', wedge_size = 1, wedge_explode = 0.05\<rparr>]\<rparr>),
      one_frame fixture)"
  using plot_type_distribution_eq[OF one_frame_0 fixture_type]
  by (simp add: fixture_type_counts fixture_type_bars pie_Some)

section \<open>C4: the sum of the type counts\<close>

text \<open>
  Claim C4, as amended. For every table with a column \<^verbatim>\<open>type\<close>, the per-type counts that the
  type-distribution renderer computes sum to the number of rows whose type is not missing;
  when no type is missing, that is the row count of the table. When the renderer returns a
  figure, the sizes of its pie wedges and the heights of its bars both sum to that number.
\<close>

theorem type_counts_sum:
  assumes "frames st df = Some t" and "getitem t ''type'' = Inr col"
  shows "sum_list (map snd (value_counts col)) = length (filter (\<lambda>c. c \<noteq> NaN) col)
     \<and> (NaN \<notin> set col \<longrightarrow> sum_list (map snd (value_counts col)) = length (rows t))
     \<and> (\<forall>axes0 axes1. fst (plot_type_distribution st df) = Inr (axes0, axes1) \<longrightarrow>
            sum_list (map wedge_size (wedges axes1)) = length (filter (\<lambda>c. c \<noteq> NaN) col)
          \<and> sum_list (map snd (bars axes0)) = length (filter (\<lambda>c. c \<noteq> NaN) col))"
proof (intro conjI allI impI)
  show total: "sum_list (map snd (value_counts col)) = length (filter (\<lambda>c. c \<noteq> NaN) col)"
    by (simp add: value_counts_sum filter_notna)
  show "sum_list (map snd (value_counts col)) = length (rows t)" if "NaN \<notin> set col"
  proof -
    from that have "filter (\<lambda>c. c \<noteq> NaN) col = col" by (auto intro: filter_True)
    with total getitem_length[OF assms(2)] show ?thesis by simp
  qed
  fix axes0 axes1
  assume fig: "fst (plot_type_distribution st df) = Inr (axes0, axes1)"
  from fig obtain ws where
    ws: "pie (map snd (value_counts col)) [''Movie'', ''TV Show''] (Some [0, 0.05]) = Inr ws"
    and a1: "wedges axes1 = ws" and a0: "bars axes0 = countplot col None"
    unfolding plot_type_distribution_eq[OF assms]
    by (cases "pie (map snd (value_counts col)) [''Movie'', ''TV Show''] (Some [0, 0.05])") auto
  from pie_InrD[OF ws] a1 total
  show "sum_list (map wedge_size (wedges axes1)) = length (filter (\<lambda>c. c \<noteq> NaN) col)"
    by simp
  show "sum_list (map snd (bars axes0)) = length (filter (\<lambda>c. c \<noteq> NaN) col)"
    by (simp add: a0 countplot_default_sum filter_notna)
qed

text \<open>The theorem of C4 at the catalog with a missing type (the counts sum to 2) and at the
  small catalog, where no type is missing (the counts sum to the row count).\<close>

theorem type_counts_sum_witness:
  "frames (one_frame missing_type) 0 = Some missing_type
   \<and> getitem missing_type ''type'' = Inr [Str ''Movie'', Str ''TV Show'', NaN]
   \<and> sum_list (map snd (value_counts [Str ''Movie'', Str ''TV Show'', NaN])) = 2
   \<and> sum_list (map wedge_size
        [\<lparr>wedge_label = ''Movie'', wedge_size = 1, wedge_explode = 0\<rparr>,
         \<lparr>wedge_label = ''TV Show'', wedge_size = 1, wedge_explode = 0.05\<rparr>]) = 2
   \<and> frames (one_frame fixture) 0 = Some fixture
   \<and> getitem fixture ''type'' = Inr [Str ''Movie'', Str ''TV Show'', Str ''TV Show'']
   \<and> NaN \<notin> set [Str ''Movie'', Str ''TV Show'', Str ''TV Show'']
   \<and> sum_list (map snd (value_counts [Str ''Movie'', Str ''TV Show'', Str ''TV Show''])) =
       length (rows fixture)"
proof -
  note m = type_counts_sum[OF one_frame_0 missing_type_column]
  note f = type_counts_sum[OF one_frame_0 fixture_type]
  have two: "length (filter (\<lambda>c. c \<noteq> NaN) [Str ''Movie'', Str ''TV Show'', NaN]) = 2" by simp
  have plot: "fst (plot_type_distribution (one_frame missing_type) 0) =
     Inr (\<lparr>bar_title = ''Count of Content Type'', bar_rotation = 0,
            bars = [(Str ''Movie'', 1), (Str ''TV Show'', 1)]\<rparr>,
           \<lparr>pie_title = ''Percentage Distribution of Content Type'', autopct = ''%1.1f%%'',
            wedges = [\<lparr>wedge_label = ''Movie'', wedge_size = 1, wedge_explode = 0\<rparr>,
                      \<lparr>wedge_label = ''TV Show'', wedge_size = 1, wedge_explode = 0.05\<rparr>]\<rparr>)"
    by (simp add: missing_type_plot)
  have nn: "NaN \<notin> set [Str ''Movie'', Str ''TV Show'', Str ''TV Show'']" by simp
  have c1: "sum_list (map snd (value_counts [Str ''Movie'', Str ''TV Show'', NaN])) = 2"
    using m two by simp
  have c2: "sum_list (map wedge_size
        [\<lparr>wedge_label = ''Movie'', wedge_size = 1, wedge_explode = 0\<rparr>,
         \<lparr>wedge_label = ''TV Show'', wedge_size = 1, wedge_explode = 0.05\<rparr>]) = 2"
    using m plot two by simp
  have c3: "sum_list (map snd (value_counts [Str ''Movie'', Str ''TV Show'', Str ''TV Show''])) =
       length (rows fixture)"
    using f nn by blast
  from one_frame_0 missing_type_column c1 c2 one_frame_0 fixture_type nn c3
  show ?thesis by (intro conjI)
qed

text \<open>
  Claim C4 as stated says that the counts sum to the row count of the raw table for every
  input table. The catalog \<open>missing_type\<close> has three rows, one of them without a type:
  \<^verbatim>\<open>value_counts\<close> leaves the missing value out, the renderer returns its figure, and the
  counts sum to 2.
\<close>

theorem type_counts_skip_missing_type:
  "getitem missing_type ''type'' = Inr [Str ''Movie'', Str ''TV Show'', NaN]
   \<and> value_counts [Str ''Movie'', Str ''TV Show'', NaN] = [(Str ''Movie'', 1), (Str ''TV Show'', 1)]
   \<and> plot_type_distribution (one_frame missing_type) 0 =
     (Inr (\<lparr>bar_title = ''Count of Content Type'', bar_rotation = 0,
            bars = [(Str ''Movie'', 1), (Str ''TV Show'', 1)]\<rparr>,
           \<lparr>pie_title = ''Percentage Distribution of Content Type'', autopct = ''%1.1f%%'',
            wedges = [\<lparr>wedge_label = ''Movie'', wedge_size = 1, wedge_explode = 0\<rparr>,
                      \<lparr>wedge_label = ''TV Show'', wedge_size = 1, wedge_explode = 0.05\<rparr>]\<rparr>),
      one_frame missing_type)
   \<and> sum_list (map snd (value_counts [Str ''Movie'', Str ''TV Show'', NaN]))
        \<noteq> length (rows missing_type)"
  using missing_type_column missing_type_counts missing_type_plot
  by (simp add: missing_type_def)

section \<open>C5: the order of the rating categories\<close>

text \<open>
  Claim C5. For every table with the columns \<^verbatim>\<open>rating\<close> and \<^verbatim>\<open>type\<close> and at least one rating
  that is not missing, both renderers return their figure; the bars of the rating
  distribution, from left to right, have non-increasing heights, there is one bar per distinct
  rating and its height is the number of rows with that rating; and the x-axis of the
  type-versus-rating chart lists the ratings in the same order.
\<close>

theorem rating_order_descending:
  assumes "frames st df = Some t"
    and "getitem t ''rating'' = Inr col"
    and "getitem t ''type'' = Inr hue"
    and "\<exists>c \<in> set col. c \<noteq> NaN"
  shows "\<exists>axes0 axes1 g.
       fst (plot_rating_distribution st df) = Inr (axes0, axes1)
     \<and> fst (plot_type_vs_rating st df) = Inr g
     \<and> sorted_wrt (\<lambda>a b. a \<ge> b) (map snd (bars axes0))
     \<and> distinct (map fst (bars axes0))
     \<and> set (map fst (bars axes0)) = set col - {NaN}
     \<and> (\<forall>(k, n) \<in> set (bars axes0). n = count_list col k)
     \<and> map fst (groups g) = map fst (bars axes0)"
proof -
  from assms(4) have "set (map fst (value_counts col)) \<noteq> {}"
    unfolding value_counts_keys_set by auto
  then have "value_counts col \<noteq> []" by auto
  from plot_pie_ok[OF this] obtain ws where ws: "plot_pie (value_counts col) = Inr ws" ..
  let ?axes0 = "\<lparr>bar_title = ''Count of Content by Rating'', bar_rotation = 70,
                  bars = value_counts col\<rparr>"
  let ?axes1 = "\<lparr>pie_title = ''Percentage Distribution of Content by Rating'',
                  autopct = ''%1.1f%%'', wedges = ws\<rparr>"
  let ?g = "\<lparr>grouped_title = ''Relation between Type (Movie/TV Show) and Rating'',
           grouped_rotation = 70,
           groups = countplot_hue col hue (map fst (value_counts col))\<rparr>"
  show ?thesis
  proof (intro exI conjI)
    show "fst (plot_rating_distribution st df) = Inr (?axes0, ?axes1)"
      by (simp add: plot_rating_distribution_eq[OF assms(1,2)] ws)
    show "fst (plot_type_vs_rating st df) = Inr ?g"
      by (simp add: plot_type_vs_rating_eq[OF assms(1,2,3)])
    show "sorted_wrt (\<lambda>a b. a \<ge> b) (map snd (bars ?axes0))"
      by (simp add: value_counts_descending)
    show "distinct (map fst (bars ?axes0))"
      by (simp add: value_counts_keys_distinct)
    show "set (map fst (bars ?axes0)) = set col - {NaN}"
      using value_counts_keys_set[of col] by simp
    show "\<forall>(k, n) \<in> set (bars ?axes0). n = count_list col k"
      by (auto dest: value_counts_entry)
    show "map fst (groups ?g) = map fst (bars ?axes0)"
      by (simp add: groups_keys)
  qed
qed

text \<open>The theorem of C5 at the small catalog: PG twice, then TV-MA once.\<close>

theorem rating_order_descending_witness:
  "frames (one_frame fixture) 0 = Some fixture
   \<and> getitem fixture ''rating'' = Inr [Str ''PG'', Str ''PG'', Str ''TV-MA'']
   \<and> getitem fixture ''type'' = Inr [Str ''Movie'', Str ''TV Show'', Str ''TV Show'']
   \<and> Str ''PG'' \<noteq> NaN
   \<and> (\<exists>axes0 axes1 g.
       fst (plot_rating_distribution (one_frame fixture) 0) = Inr (axes0, axes1)
     \<and> fst (plot_type_vs_rating (one_frame fixture) 0) = Inr g
     \<and> bars axes0 = [(Str ''PG'', 2), (Str ''TV-MA'', 1)]
     \<and> sorted_wrt (\<lambda>a b. a \<ge> b) (map snd (bars axes0))
     \<and> map fst (groups g) = map fst (bars axes0))"
proof -
  have ex: "\<exists>c \<in> set [Str ''PG'', Str ''PG'', Str ''TV-MA'']. c \<noteq> NaN" by simp
  from rating_order_descending[OF one_frame_0 fixture_rating fixture_type ex]
  obtain axes0 axes1 g where
    r: "fst (plot_rating_distribution (one_frame fixture) 0) = Inr (axes0, axes1)"
    and g: "fst (plot_type_vs_rating (one_frame fixture) 0) = Inr g"
    and s: "sorted_wrt (\<lambda>a b. a \<ge> b) (map snd (bars axes0))"
    and o: "map fst (groups g) = map fst (bars axes0)"
    by (elim exE conjE)
  from r have b: "bars axes0 = [(Str ''PG'', 2), (Str ''TV-MA'', 1)]"
    unfolding plot_rating_distribution_eq[OF one_frame_0 fixture_rating]
    by (cases "plot_pie (value_counts [Str ''PG'', Str ''PG'', Str ''TV-MA''])")
      (auto simp: fixture_rating_counts)
  from r g b s o have "\<exists>axes0 axes1 g.
       fst (plot_rating_distribution (one_frame fixture) 0) = Inr (axes0, axes1)
     \<and> fst (plot_type_vs_rating (one_frame fixture) 0) = Inr g
     \<and> bars axes0 = [(Str ''PG'', 2), (Str ''TV-MA'', 1)]
     \<and> sorted_wrt (\<lambda>a b. a \<ge> b) (map snd (bars axes0))
     \<and> map fst (groups g) = map fst (bars axes0)"
    by (intro exI conjI)
  with one_frame_0 fixture_rating fixture_type show ?thesis by simp
qed

section \<open>C6: the text of the word cloud\<close>

text \<open>
  Claim C6. For every table and column, when the library finds a word in the text, the
  generator returns a figure whose text is the text of the spec: every row's value with its
  comma characters stripped, the values separated by single spaces. The text holds no comma;
  its tokens are the tokens of the comma-stripped values, row after row, so that the number of
  occurrences of a token in the text is the sum of its numbers of occurrences in the rows.
\<close>

theorem wordcloud_text_blob:
  assumes "frames st df = Some t" and "getitem t column_name = Inr col"
    and "process_text (wordcloud_text_spec (map astype_str col)) \<noteq> []"
  shows "\<exists>fig rng'.
       generate_wordcloud process_text layout st rng df column_name title = (Inr fig, rng')
     \<and> wc_text fig = wordcloud_text_spec (map astype_str col)
     \<and> CHR '','' \<notin> set (wc_text fig)
     \<and> tokens (wc_text fig) = concat (map (\<lambda>c. tokens (strip_commas (astype_str c))) col)
     \<and> (\<forall>w. count (mset (tokens (wc_text fig))) w =
              sum_list (map (\<lambda>c. count (mset (tokens (strip_commas (astype_str c)))) w) col))"
proof -
  let ?text = "wordcloud_text_spec (map astype_str col)"
  let ?fig = "\<lparr>wc_title = title, wc_text = ?text, wc_image = fst (layout rng (process_text ?text))\<rparr>"
  have toks: "tokens ?text = concat (map (\<lambda>c. tokens (strip_commas (astype_str c))) col)"
    by (simp add: tokens_text_spec comp_def)
  have nocomma: "CHR '','' \<notin> set (spaced vs)" if "\<forall>v \<in> set vs. CHR '','' \<notin> set v" for vs
    using that by (cases vs) (auto simp: foldl_spaced)
  show ?thesis
  proof (intro exI conjI allI)
    show "generate_wordcloud process_text layout st rng df column_name title =
        (Inr ?fig, snd (layout rng (process_text ?text)))"
      using assms(3) by (simp add: generate_wordcloud_eq[OF assms(1,2)] Let_def)
    show "wc_text ?fig = ?text" by simp
    show "CHR '','' \<notin> set (wc_text ?fig)"
      unfolding wordcloud_text_spec_def by (simp, rule nocomma) (auto simp: strip_commas_def)
    show "tokens (wc_text ?fig) = concat (map (\<lambda>c. tokens (strip_commas (astype_str c))) col)"
      using toks by simp
    show "count (mset (tokens (wc_text ?fig))) w =
        sum_list (map (\<lambda>c. count (mset (tokens (strip_commas (astype_str c)))) w) col)" for w
      unfolding select_convs toks by (induction col) simp_all
  qed
qed

text \<open>The theorem of C6 at the cleaned small catalog: the countries \<^verbatim>\<open>USA\<close> and
  \<^verbatim>\<open>USA, India\<close> give the token \<^verbatim>\<open>USA\<close> twice and the token \<^verbatim>\<open>India\<close> once.\<close>

theorem wordcloud_text_blob_witness:
  "frames (one_frame fixture_cleaned) 0 = Some fixture_cleaned
   \<and> getitem fixture_cleaned ''country'' = Inr [Str ''USA'', Str ''USA, India'']
   \<and> sample_process_text (wordcloud_text_spec (map astype_str [Str ''USA'', Str ''USA, India''])) \<noteq> []
   \<and> (\<exists>fig rng'.
         generate_wordcloud sample_process_text sample_layout (one_frame fixture_cleaned) 0 0
           ''country'' ''Most Contributing Countries on Netflix'' = (Inr fig, rng')
       \<and> wc_text fig = ''USA USA India''
       \<and> tokens (wc_text fig) = [''USA'', ''USA'', ''India'']
       \<and> count (mset (tokens (wc_text fig))) ''USA'' = 2
       \<and> count (mset (tokens (wc_text fig))) ''India'' = 1)"
proof -
  have words: "sample_process_text (wordcloud_text_spec (map astype_str [Str ''USA'', Str ''USA, India''])) \<noteq> []"
    by (simp add: fixture_text fixture_words)
  from wordcloud_text_blob[where st="one_frame fixture_cleaned" and df=0 and t=fixture_cleaned
      and column_name="''country''" and col="[Str ''USA'', Str ''USA, India'']"
      and process_text=sample_process_text and layout=sample_layout and rng=0
      and title="''Most Contributing Countries on Netflix''",
      OF one_frame_0 fixture_cleaned_country words]
  obtain fig rng' where
    run: "generate_wordcloud sample_process_text sample_layout (one_frame fixture_cleaned) 0 0
           ''country'' ''Most Contributing Countries on Netflix'' = (Inr fig, rng')"
    and blob: "wc_text fig = wordcloud_text_spec (map astype_str [Str ''USA'', Str ''USA, India''])"
    by (elim exE conjE)
  from blob have t: "wc_text fig = ''USA USA India''" by (simp add: fixture_text)
  have "tokens (wc_text fig) = [''USA'', ''USA'', ''India'']"
    and "count (mset (tokens (wc_text fig))) ''USA'' = 2"
    and "count (mset (tokens (wc_text fig))) ''India'' = 1"
    unfolding t fixture_tokens by simp_all
  with run t have "\<exists>fig rng'.
         generate_wordcloud sample_process_text sample_layout (one_frame fixture_cleaned) 0 0
           ''country'' ''Most Contributing Countries on Netflix'' = (Inr fig, rng')
       \<and> wc_text fig = ''USA USA India''
       \<and> tokens (wc_text fig) = [''USA'', ''USA'', ''India'']
       \<and> count (mset (tokens (wc_text fig))) ''USA'' = 2
       \<and> count (mset (tokens (wc_text fig))) ''India'' = 1"
    by (intro exI conjI)
  with one_frame_0 fixture_cleaned_country words show ?thesis by (intro conjI)
qed

section \<open>C7: two calls with the same arguments\<close>

text \<open>
  Claim C7. Call the cached loader twice in a row with the same path, the file system
  unchanged: when the first call raises, the second raises the same exception; when the first
  call returns two tables, the second returns two tables with the same contents. Call the
  cached word-cloud generator twice in a row with the same table, column and title: the
  second call returns what the first returned, whatever the state of the random generator
  of the layout.
\<close>

theorem cached_calls_agree:
  assumes "cached_load_data c fs parse st file_path = (r1, st1, c1)"
    and "cached_load_data c1 fs parse st1 file_path = (r2, st2, c2)"
    and "cached_generate_wordcloud k process_text layout s rng df column_name title = (w1, rng1, k1)"
    and "cached_generate_wordcloud k1 process_text layout s rng1 df column_name title = (w2, rng2, k2)"
  shows "(case r1 of
            Inl e \<Rightarrow> r2 = Inl e
          | Inr (raw1, df1) \<Rightarrow>
              (\<exists>raw2 df2. r2 = Inr (raw2, df2)
                 \<and> frames st1 raw1 \<noteq> None \<and> frames st1 df1 \<noteq> None
                 \<and> frames st2 raw2 = frames st1 raw1 \<and> frames st2 df2 = frames st1 df1))
     \<and> w2 = w1"
  using cached_load_data_twice[OF assms(1,2)] cached_generate_wordcloud_twice[OF assms(3,4)]
  by simp

text \<open>The theorem of C7 at the small catalog, from an empty cache: the second call of the
  loader returns new references to the same two tables, and the second call of the generator
  returns the figure of the first although the random generator has moved on.\<close>

theorem cached_calls_agree_witness:
  "cached_load_data Map.empty fixture_fs fixture_to_datetime empty_store ''netflix_titles.csv'' =
     (Inr (0, 2),
      \<lparr>next_id = 3, frames = [0 \<mapsto> fixture, 1 \<mapsto> fixture, 2 \<mapsto> fixture_cleaned]\<rparr>,
      [''netflix_titles.csv'' \<mapsto> (fixture, fixture_cleaned)])
   \<and> (\<exists>raw2 df2 st2 c2.
         cached_load_data [''netflix_titles.csv'' \<mapsto> (fixture, fixture_cleaned)] fixture_fs
           fixture_to_datetime
           \<lparr>next_id = 3, frames = [0 \<mapsto> fixture, 1 \<mapsto> fixture, 2 \<mapsto> fixture_cleaned]\<rparr>
           ''netflix_titles.csv'' = (Inr (raw2, df2), st2, c2)
       \<and> frames st2 raw2 = Some fixture \<and> frames st2 df2 = Some fixture_cleaned)
   \<and> (\<exists>w1 k1 rng2 k2.
         cached_generate_wordcloud Map.empty sample_process_text sample_layout
           (one_frame fixture_cleaned) 0 0 ''country'' ''Countries'' = (w1, 1, k1)
       \<and> cached_generate_wordcloud k1 sample_process_text sample_layout
           (one_frame fixture_cleaned) 1 0 ''country'' ''Countries'' = (w1, rng2, k2))"
proof -
  note agree = cached_calls_agree[OF first_load second_load first_cloud second_cloud]
  have s0: "frames \<lparr>next_id = 3, frames = [0 \<mapsto> fixture, 1 \<mapsto> fixture, 2 \<mapsto> fixture_cleaned]\<rparr> 0
      = Some fixture"
    and s2: "frames \<lparr>next_id = 3, frames = [0 \<mapsto> fixture, 1 \<mapsto> fixture, 2 \<mapsto> fixture_cleaned]\<rparr> 2
      = Some fixture_cleaned"
    by simp_all
  from agree have
    e3: "frames \<lparr>next_id = 5, frames = [0 \<mapsto> fixture, 1 \<mapsto> fixture, 2 \<mapsto> fixture_cleaned,
                               3 \<mapsto> fixture, 4 \<mapsto> fixture_cleaned]\<rparr> 3 =
     frames \<lparr>next_id = 3, frames = [0 \<mapsto> fixture, 1 \<mapsto> fixture, 2 \<mapsto> fixture_cleaned]\<rparr> 0"
    and e4: "frames \<lparr>next_id = 5, frames = [0 \<mapsto> fixture, 1 \<mapsto> fixture, 2 \<mapsto> fixture_cleaned,
                               3 \<mapsto> fixture, 4 \<mapsto> fixture_cleaned]\<rparr> 4 =
     frames \<lparr>next_id = 3, frames = [0 \<mapsto> fixture, 1 \<mapsto> fixture, 2 \<mapsto> fixture_cleaned]\<rparr> 2"
    by simp_all
  have "\<exists>raw2 df2 st2 c2.
         cached_load_data [''netflix_titles.csv'' \<mapsto> (fixture, fixture_cleaned)] fixture_fs
           fixture_to_datetime
           \<lparr>next_id = 3, frames = [0 \<mapsto> fixture, 1 \<mapsto> fixture, 2 \<mapsto> fixture_cleaned]\<rparr>
           ''netflix_titles.csv'' = (Inr (raw2, df2), st2, c2)
       \<and> frames st2 raw2 = Some fixture \<and> frames st2 df2 = Some fixture_cleaned"
  proof (intro exI conjI)
    show "cached_load_data [''netflix_titles.csv'' \<mapsto> (fixture, fixture_cleaned)] fixture_fs
           fixture_to_datetime
           \<lparr>next_id = 3, frames = [0 \<mapsto> fixture, 1 \<mapsto> fixture, 2 \<mapsto> fixture_cleaned]\<rparr>
           ''netflix_titles.csv'' =
        (Inr (3, 4),
         \<lparr>next_id = 5, frames = [0 \<mapsto> fixture, 1 \<mapsto> fixture, 2 \<mapsto> fixture_cleaned,
                               3 \<mapsto> fixture, 4 \<mapsto> fixture_cleaned]\<rparr>,
         [''netflix_titles.csv'' \<mapsto> (fixture, fixture_cleaned)])"
      by (rule second_load)
    show "frames \<lparr>next_id = 5, frames = [0 \<mapsto> fixture, 1 \<mapsto> fixture, 2 \<mapsto> fixture_cleaned,
                               3 \<mapsto> fixture, 4 \<mapsto> fixture_cleaned]\<rparr> 3 = Some fixture"
      using e3 s0 by (rule trans)
    show "frames \<lparr>next_id = 5, frames = [0 \<mapsto> fixture, 1 \<mapsto> fixture, 2 \<mapsto> fixture_cleaned,
                               3 \<mapsto> fixture, 4 \<mapsto> fixture_cleaned]\<rparr> 4 = Some fixture_cleaned"
      using e4 s2 by (rule trans)
  qed
  moreover have "\<exists>w1 k1 rng2 k2.
         cached_generate_wordcloud Map.empty sample_process_text sample_layout
           (one_frame fixture_cleaned) 0 0 ''country'' ''Countries'' = (w1, 1, k1)
       \<and> cached_generate_wordcloud k1 sample_process_text sample_layout
           (one_frame fixture_cleaned) 1 0 ''country'' ''Countries'' = (w1, rng2, k2)"
    using first_cloud second_cloud by (intro exI conjI)
  ultimately show ?thesis using first_load by (intro conjI)
qed

section \<open>C8: the tables are left unchanged\<close>

text \<open>
  Claim C8. Each of the three distribution renderers returns the store it received: the
  contents of its input table, and of every other table, are after the call what they were
  before. When the loader returns, the raw table is the parsed file: the cleaning and the
  date derivation have changed another object, and no table that existed before the call
  has changed. So after the loader and the three renderers have run on the raw table, the
  raw table is still the parsed file.
\<close>

theorem tables_left_unchanged:
  assumes "fs file_path = Some t" and "wf_table t"
    and "load_data fs parse st file_path = Inr ((raw, df), st')"
  shows "snd (plot_type_distribution s a) = s
     \<and> snd (plot_rating_distribution s a) = s
     \<and> snd (plot_type_vs_rating s a) = s
     \<and> frames st' raw = Some t
     \<and> raw \<noteq> df
     \<and> (\<forall>b. b < next_id st \<longrightarrow> frames st' b = frames st b)
     \<and> frames (snd (plot_type_vs_rating (snd (plot_rating_distribution
          (snd (plot_type_distribution st' raw)) raw)) raw)) raw = Some t"
proof -
  have r: "snd (plot_type_distribution s a) = s" "snd (plot_rating_distribution s a) = s"
    "snd (plot_type_vs_rating s a) = s" for s a
    by (simp_all add: plot_type_distribution_def plot_rating_distribution_def
        plot_type_vs_rating_def)
  from load_data_InrD[OF assms] obtain col dates where
    col: "getitem (dropna t) ''date_added'' = Inr col" and td: "parse col = Inr dates"
    and len: "length dates = length col" and all_dates: "list_all is_date dates"
    by blast
  from load_data_ok[where fs=fs and p=file_path and t=t and to_datetime=parse and st=st,
      OF assms(1,2) col td len all_dates] assms(3)
  have raw: "raw = next_id st" and df: "df = next_id st + 2"
    and fr: "frames st' = (frames st)(next_id st \<mapsto> t, Suc (next_id st) \<mapsto> t,
       next_id st + 2 \<mapsto>
         set_column (set_column (set_column (set_column (dropna t)
           ''date_added'' dates)
           ''day_added'' (map (\<lambda>c. Num (ts_day (date_of c))) dates))
           ''year_added'' (map (\<lambda>c. Num (ts_year (date_of c))) dates))
           ''month_added'' (map (\<lambda>c. Num (ts_month (date_of c))) dates))"
    by auto
  have kept: "frames st' raw = Some t" unfolding fr raw by simp
  have old: "\<forall>b. b < next_id st \<longrightarrow> frames st' b = frames st b" unfolding fr by simp
  from r kept raw df old show ?thesis by simp
qed

text \<open>The theorem of C8 at the small catalog, loaded into a store that already holds a
  table.\<close>

theorem tables_left_unchanged_witness:
  "fixture_fs ''netflix_titles.csv'' = Some fixture
   \<and> wf_table fixture
   \<and> load_data fixture_fs fixture_to_datetime (one_frame only_movies) ''netflix_titles.csv'' =
       Inr ((1, 3), \<lparr>next_id = 4, frames = [0 \<mapsto> only_movies, 1 \<mapsto> fixture, 2 \<mapsto> fixture, 3 \<mapsto> fixture_cleaned]\<rparr>)
   \<and> snd (plot_type_distribution \<lparr>next_id = 4, frames = [0 \<mapsto> only_movies, 1 \<mapsto> fixture, 2 \<mapsto> fixture, 3 \<mapsto> fixture_cleaned]\<rparr> 1)
       = \<lparr>next_id = 4, frames = [0 \<mapsto> only_movies, 1 \<mapsto> fixture, 2 \<mapsto> fixture, 3 \<mapsto> fixture_cleaned]\<rparr>
   \<and> frames \<lparr>next_id = 4, frames = [0 \<mapsto> only_movies, 1 \<mapsto> fixture, 2 \<mapsto> fixture, 3 \<mapsto> fixture_cleaned]\<rparr> 1 = Some fixture
   \<and> frames \<lparr>next_id = 4, frames = [0 \<mapsto> only_movies, 1 \<mapsto> fixture, 2 \<mapsto> fixture, 3 \<mapsto> fixture_cleaned]\<rparr> 0 = frames (one_frame only_movies) 0"
proof -
  have run: "load_data fixture_fs fixture_to_datetime (one_frame only_movies) ''netflix_titles.csv'' =
       Inr ((1, 3), \<lparr>next_id = 4, frames = [0 \<mapsto> only_movies, 1 \<mapsto> fixture, 2 \<mapsto> fixture, 3 \<mapsto> fixture_cleaned]\<rparr>)"
    using load_data_ok[where fs=fixture_fs and p="''netflix_titles.csv''" and t=fixture
        and to_datetime=fixture_to_datetime and st="one_frame only_movies"
        and dates="[Date 18895, Date 18078]", OF fixture_file wf_fixture
        fixture_dates fixture_parsed]
    by (simp add: one_frame_def eval_nat_numeral dropna_fixture set_column_def
        fixture_cleaned_def ts_day_def ts_year_def ts_month_def civil_fixture)
  note t = tables_left_unchanged[where fs=fixture_fs and file_path="''netflix_titles.csv''"
      and t=fixture and parse=fixture_to_datetime and st="one_frame only_movies",
      OF fixture_file wf_fixture run]
  have "next_id (one_frame only_movies) = 1" by (simp add: one_frame_def)
  with t fixture_file wf_fixture run show ?thesis by simp
qed

section \<open>C9: a comma and the words around it\<close>




section \<open>C10: the two fixed labels of the type pie\<close>

text \<open>
  Claim C10. The type pie has the two fixed labels Movie and TV Show, whatever the data. For
  every table with a column \<^verbatim>\<open>type\<close>, the renderer raises \<^verbatim>\<open>ValueError\<close> when the number of
  distinct type values (missing values aside) is not two, and returns a figure when it is two.
\<close>

theorem type_pie_needs_two_values:
  assumes "frames st df = Some t" and "getitem t ''type'' = Inr col"
  shows "(card (set col - {NaN}) \<noteq> 2 \<longrightarrow> fst (plot_type_distribution st df) = Inl ValueError)
     \<and> (card (set col - {NaN}) = 2 \<longrightarrow> (\<exists>fig. fst (plot_type_distribution st df) = Inr fig))"
  by (simp add: plot_type_distribution_eq[OF assms] pie_Some value_counts_length)

text \<open>The theorem of C10 at a catalog of movies only, where the renderer raises, and at the
  small catalog, where it returns a figure.\<close>

theorem type_pie_needs_two_values_witness:
  "frames (one_frame only_movies) 0 = Some only_movies
   \<and> getitem only_movies ''type'' = Inr [Str ''Movie'', Str ''Movie'']
   \<and> card (set [Str ''Movie'', Str ''Movie''] - {NaN}) = 1
   \<and> fst (plot_type_distribution (one_frame only_movies) 0) = Inl ValueError
   \<and> card (set [Str ''Movie'', Str ''TV Show'', Str ''TV Show''] - {NaN}) = 2
   \<and> (\<exists>fig. fst (plot_type_distribution (one_frame fixture) 0) = Inr fig)"
proof -
  have one: "card (set [Str ''Movie'', Str ''Movie''] - {NaN}) = 1" by simp
  have two: "card (set [Str ''Movie'', Str ''TV Show'', Str ''TV Show''] - {NaN}) = 2" by simp
  from type_pie_needs_two_values[OF one_frame_0 only_movies_type] one
  have a: "fst (plot_type_distribution (one_frame only_movies) 0) = Inl ValueError" by simp
  from type_pie_needs_two_values[OF one_frame_0 fixture_type] two
  have b: "\<exists>fig. fst (plot_type_distribution (one_frame fixture) 0) = Inr fig" by blast
  from one_frame_0 only_movies_type one a two b show ?thesis by (intro conjI)
qed

end
